theory Spec2Isabelle
  imports Complex_Main "HOL-Library.Multiset"
begin

section \<open>Shared helpers\<close>

text \<open>
  JavaScript template literals render an integer in decimal, all digits written, as
  long as its magnitude is below \<open>10^21\<close> (exponent form from there on; customer
  ids, counts and durations stay far below). The cache keys and the messages of the
  program are built that way, so the rendering is written out.
\<close>

fun show_nat :: "nat \<Rightarrow> string" where
  "show_nat n =
     (if n < 10 then [''0123456789'' ! n]
      else show_nat (n div 10) @ [''0123456789'' ! (n mod 10)])"

declare show_nat.simps [simp del]

definition show_int :: "int \<Rightarrow> string" where
  "show_int i = (if i < 0 then CHR ''-'' # show_nat (nat (- i)) else show_nat (nat i))"

section \<open>Errors (Errors.js)\<close>

text \<open>
  Every error class of the program is an \<open>Error\<close> carrying a \<open>name\<close>, a
  \<open>message\<close> and, for the database errors, the \<open>originalError\<close> it wraps.
  The stack text, the creation timestamp, and the \<open>query\<close>, \<open>operation\<close> and
  \<open>field\<close> annotations are not inspected by any code path modelled below.
\<close>

datatype error = Error (name: string) (message: string) (originalError: "error option")

definition QueryError :: "string \<Rightarrow> error option \<Rightarrow> error" where
  "QueryError msg original = Error ''QueryError'' msg original"

definition CacheError :: "string \<Rightarrow> error option \<Rightarrow> error" where
  "CacheError msg original = Error ''CacheError'' msg original"

definition TimeoutError :: "string \<Rightarrow> error" where
  "TimeoutError msg = Error ''TimeoutError'' msg None"

definition ValidationError :: "string \<Rightarrow> error" where
  "ValidationError msg = Error ''ValidationError'' msg None"

section \<open>Query strategies (QueryStrategy.js)\<close>

subsection \<open>Rows and the dashboard read-model\<close>

record row =
  row_id :: int
  row_name :: string
  row_email :: string
  row_order_id :: int
  row_total_cents :: int
  row_status :: string
  row_created_at :: int

record customer_summary =
  cust_id :: int
  cust_name :: string
  cust_email :: string

record order_summary =
  ord_id :: int
  ord_total_cents :: int
  ord_status :: string
  ord_created_at :: int

record dashboard =
  customer :: "customer_summary option"
  orders :: "order_summary list"

text \<open>
  \<open>_formatCustomerDashboard(rows)\<close>: the three strategy classes carry the same body.
  \<open>customer = None\<close> is JavaScript's \<open>null\<close>.
\<close>

definition formatCustomerDashboard :: "row list \<Rightarrow> dashboard" where
  "formatCustomerDashboard rows =
     (case rows of
        [] \<Rightarrow> \<lparr>customer = None, orders = []\<rparr>
      | r0 # _ \<Rightarrow>
          \<lparr>customer = Some \<lparr>cust_id = row_id r0, cust_name = row_name r0,
                             cust_email = row_email r0\<rparr>,
           orders = map (\<lambda>r. \<lparr>ord_id = row_order_id r, ord_total_cents = row_total_cents r,
                                ord_status = row_status r, ord_created_at = row_created_at r\<rparr>)
                        rows\<rparr>)"

subsection \<open>The two gateways\<close>

text \<open>
  The strategies reach the outside through five operations: \<open>redis.get\<close>,
  \<open>redis.setex\<close>, \<open>pgPool.connect\<close>, \<open>client.query\<close> and \<open>client.release\<close>.
  The \<open>world\<close> holds what they act on: the contents of the cache, the rows the
  dashboard query yields per customer, for each operation that can reject the error it
  rejects with (\<open>None\<close>: it resolves), and the log of the operations performed so far.
\<close>

datatype io =
    RedisGet string
  | RedisSetex string int string
  | PgConnect
  | ClientQuery int
  | ClientRelease

record world =
  cache :: "string \<rightharpoonup> string"
  rows_of :: "int \<Rightarrow> row list"
  redis_get_fails :: "error option"
  redis_setex_fails :: "error option"
  pg_connect_fails :: "error option"
  client_query_fails :: "error option"
  io_log :: "io list"

definition redis_get :: "string \<Rightarrow> world \<Rightarrow> (error + string option) \<times> world" where
  "redis_get key w =
     (let w' = w\<lparr>io_log := io_log w @ [RedisGet key]\<rparr>
      in case redis_get_fails w of
           Some e \<Rightarrow> (Inl e, w')
         | None \<Rightarrow> (Inr (cache w key), w'))"

definition redis_setex :: "string \<Rightarrow> int \<Rightarrow> string \<Rightarrow> world \<Rightarrow> (error + unit) \<times> world" where
  "redis_setex key ttl v w =
     (let w' = w\<lparr>io_log := io_log w @ [RedisSetex key ttl v]\<rparr>
      in case redis_setex_fails w of
           Some e \<Rightarrow> (Inl e, w')
         | None \<Rightarrow> (Inr (), w'\<lparr>cache := (cache w)(key \<mapsto> v)\<rparr>))"

definition pg_connect :: "world \<Rightarrow> (error + unit) \<times> world" where
  "pg_connect w =
     (let w' = w\<lparr>io_log := io_log w @ [PgConnect]\<rparr>
      in case pg_connect_fails w of
           Some e \<Rightarrow> (Inl e, w')
         | None \<Rightarrow> (Inr (), w'))"

definition client_query :: "int \<Rightarrow> world \<Rightarrow> (error + row list) \<times> world" where
  "client_query customerId w =
     (let w' = w\<lparr>io_log := io_log w @ [ClientQuery customerId]\<rparr>
      in case client_query_fails w of
           Some e \<Rightarrow> (Inl e, w')
         | None \<Rightarrow> (Inr (rows_of w customerId), w'))"

definition client_release :: "world \<Rightarrow> world" where
  "client_release w = w\<lparr>io_log := io_log w @ [ClientRelease]\<rparr>"

text \<open>
  What the strategies take from their runtime: \<open>JSON.stringify\<close>, \<open>JSON.parse\<close>
  (which throws on text that is not JSON) and \<open>config.benchmark.redisTTL\<close>.
\<close>

record runtime =
  JSON_stringify :: "dashboard \<Rightarrow> string"
  JSON_parse :: "string \<Rightarrow> error + dashboard"
  redisTTL :: int

text \<open>\<open>if (cached)\<close>: \<open>null\<close> and the empty string are falsy.\<close>

definition truthy :: "string option \<Rightarrow> bool" where
  "truthy cached = (case cached of None \<Rightarrow> False | Some v \<Rightarrow> v \<noteq> [])"

definition cacheKey_of :: "int \<Rightarrow> string" where
  "cacheKey_of customerId = ''dashboard:'' @ show_int customerId"

subsection \<open>RedisCacheStrategy\<close>

record RedisCacheStrategy =
  cacheHits :: nat
  cacheMisses :: nat

definition new_RedisCacheStrategy :: RedisCacheStrategy where
  "new_RedisCacheStrategy = \<lparr>cacheHits = 0, cacheMisses = 0\<rparr>"

text \<open>
  The body of the \<open>try\<close> block of \<open>RedisCacheStrategy.getCustomerDashboard\<close>: query,
  format, write to the cache, return the data. An error of the query or of the cache
  write leaves the block as an exception; there is no \<open>catch\<close>.
\<close>

definition query_and_cache :: "runtime \<Rightarrow> string \<Rightarrow> int \<Rightarrow> world \<Rightarrow> (error + dashboard) \<times> world" where
  "query_and_cache rt cacheKey customerId w =
     (case client_query customerId w of
        (Inl e, w1) \<Rightarrow> (Inl e, w1)
      | (Inr rows, w1) \<Rightarrow>
          (let data = formatCustomerDashboard rows
           in case redis_setex cacheKey (redisTTL rt) (JSON_stringify rt data) w1 of
                (Inl e, w2) \<Rightarrow> (Inl e, w2)
              | (Inr _, w2) \<Rightarrow> (Inr data, w2)))"

text \<open>
  \<open>RedisCacheStrategy.getCustomerDashboard(customerId)\<close>. The result is the value
  returned or the error thrown, the strategy with its counters, and the world after
  the call. The \<open>finally\<close> releases the client on both exits of the \<open>try\<close>.
\<close>

definition RedisCacheStrategy_getCustomerDashboard ::
  "runtime \<Rightarrow> int \<Rightarrow> RedisCacheStrategy \<Rightarrow> world
     \<Rightarrow> (error + dashboard) \<times> RedisCacheStrategy \<times> world" where
  "RedisCacheStrategy_getCustomerDashboard rt customerId this w =
     (let cacheKey = cacheKey_of customerId
      in case redis_get cacheKey w of
           (Inl e, w1) \<Rightarrow> (Inl e, this, w1)
         | (Inr cached, w1) \<Rightarrow>
             if truthy cached then
               (JSON_parse rt (the cached), this\<lparr>cacheHits := cacheHits this + 1\<rparr>, w1)
             else
               (let this1 = this\<lparr>cacheMisses := cacheMisses this + 1\<rparr>
                in case pg_connect w1 of
                     (Inl e, w2) \<Rightarrow> (Inl e, this1, w2)
                   | (Inr _, w2) \<Rightarrow>
                       (case query_and_cache rt cacheKey customerId w2 of
                          (res, w3) \<Rightarrow> (res, this1, client_release w3))))"

subsection \<open>HybridStrategy\<close>

record HybridStrategy =
  hotDataThreshold :: int
  accessCount :: "int \<rightharpoonup> int"

definition new_HybridStrategy :: "int \<Rightarrow> HybridStrategy" where
  "new_HybridStrategy threshold = \<lparr>hotDataThreshold = threshold, accessCount = Map.empty\<rparr>"

definition getFromPostgres :: "int \<Rightarrow> world \<Rightarrow> (error + dashboard) \<times> world" where
  "getFromPostgres customerId w =
     (case pg_connect w of
        (Inl e, w1) \<Rightarrow> (Inl e, w1)
      | (Inr _, w1) \<Rightarrow>
          (case client_query customerId w1 of
             (Inl e, w2) \<Rightarrow> (Inl e, client_release w2)
           | (Inr rows, w2) \<Rightarrow> (Inr (formatCustomerDashboard rows), client_release w2)))"

definition getFromRedis :: "runtime \<Rightarrow> int \<Rightarrow> world \<Rightarrow> (error + dashboard) \<times> world" where
  "getFromRedis rt customerId w =
     (let cacheKey = cacheKey_of customerId
      in case redis_get cacheKey w of
           (Inl e, w1) \<Rightarrow> (Inl e, w1)
         | (Inr cached, w1) \<Rightarrow>
             if truthy cached then (JSON_parse rt (the cached), w1)
             else
               (case getFromPostgres customerId w1 of
                  (Inl e, w2) \<Rightarrow> (Inl e, w2)
                | (Inr data, w2) \<Rightarrow>
                    (case redis_setex cacheKey (redisTTL rt) (JSON_stringify rt data) w2 of
                       (Inl e, w3) \<Rightarrow> (Inl e, w3)
                     | (Inr _, w3) \<Rightarrow> (Inr data, w3))))"

text \<open>
  \<open>(this.accessCount.get(customerId) || 0) + 1\<close>: a missing entry counts as 0 (so
  does a stored 0, which is falsy).
\<close>

definition next_count :: "HybridStrategy \<Rightarrow> int \<Rightarrow> int" where
  "next_count this customerId =
     (case accessCount this customerId of None \<Rightarrow> 0 | Some c \<Rightarrow> if c = 0 then 0 else c) + 1"

definition HybridStrategy_getCustomerDashboard ::
  "runtime \<Rightarrow> int \<Rightarrow> HybridStrategy \<Rightarrow> world \<Rightarrow> (error + dashboard) \<times> HybridStrategy \<times> world" where
  "HybridStrategy_getCustomerDashboard rt customerId this w =
     (let count = next_count this customerId;
          this1 = this\<lparr>accessCount := (accessCount this)(customerId \<mapsto> count)\<rparr>
      in if count \<ge> hotDataThreshold this then
           (case getFromRedis rt customerId w of (res, w1) \<Rightarrow> (res, this1, w1))
         else
           (case getFromPostgres customerId w of (res, w1) \<Rightarrow> (res, this1, w1)))"

text \<open>
  A run of the strategy: the calls in order, each with its customer id and the world it
  meets (the cache and the store may have changed in any way between two calls). Only
  the strategy's own state is carried from one call to the next.
\<close>

fun hybrid_calls :: "runtime \<Rightarrow> HybridStrategy \<Rightarrow> (int \<times> world) list \<Rightarrow> HybridStrategy" where
  "hybrid_calls rt this [] = this"
| "hybrid_calls rt this ((customerId, w) # rest) =
     hybrid_calls rt (fst (snd (HybridStrategy_getCustomerDashboard rt customerId this w))) rest"

subsection \<open>Examples and observations\<close>

text \<open>
  A runtime and a world for the examples: an empty cache, a store with one pending order
  per customer, no operation failing. The JSON functions are stand-ins; no example
  depends on the text they produce.
\<close>

definition sample_runtime :: runtime where
  "sample_runtime =
     \<lparr>JSON_stringify = (\<lambda>data. ''{}''),
      JSON_parse = (\<lambda>text. Inr \<lparr>customer = None, orders = []\<rparr>),
      redisTTL = 3000\<rparr>"

definition sample_world :: world where
  "sample_world =
     \<lparr>cache = Map.empty,
      rows_of = (\<lambda>customerId.
        [\<lparr>row_id = customerId, row_name = ''Ada'', row_email = ''ada@example.org'',
          row_order_id = 11, row_total_cents = 4200, row_status = ''pending'',
          row_created_at = 1700000000\<rparr>]),
      redis_get_fails = None, redis_setex_fails = None, pg_connect_fails = None,
      client_query_fails = None, io_log = []\<rparr>"

text \<open>The operations that touch the cache.\<close>

fun is_cache_io :: "io \<Rightarrow> bool" where
  "is_cache_io (RedisGet key) = True"
| "is_cache_io (RedisSetex key ttl v) = True"
| "is_cache_io PgConnect = False"
| "is_cache_io (ClientQuery cid) = False"
| "is_cache_io ClientRelease = False"

section \<open>Decorators (QueryDecorators.js)\<close>

text \<open>
  A decorator wraps an inner executor. The inner executor is any object with a
  \<open>getCustomerDashboard\<close> method: here a function from its own state and the customer
  id to the outcome (\<open>Inl\<close>: the error thrown, \<open>Inr\<close>: the value returned) and its
  state after the call.
\<close>

type_synonym ('s, 'a) executor = "'s \<Rightarrow> int \<Rightarrow> (error + 'a) \<times> 's"

text \<open>
  An executor that plays a script: its state is the number of calls it has received,
  and its \<open>n\<close>-th call (from 0) has the outcome \<open>script n\<close>. The state after a
  decorated call therefore counts the inner calls made.
\<close>

definition scripted :: "(nat \<Rightarrow> error + 'a) \<Rightarrow> (nat, 'a) executor" where
  "scripted script n customerId = (script n, Suc n)"

text \<open>
  A script for an inner strategy that throws \<open>e\<close> on its first \<open>k\<close> calls and
  returns \<open>result\<close> from then on.
\<close>

definition fails_then_returns :: "nat \<Rightarrow> error \<Rightarrow> 'a \<Rightarrow> nat \<Rightarrow> error + 'a" where
  "fails_then_returns k e result n = (if n < k then Inl e else Inr result)"

subsection \<open>RetryDecorator\<close>

record RetryDecorator =
  maxRetries :: int
  initialDelay :: int

definition exhausted :: "RetryDecorator \<Rightarrow> error option \<Rightarrow> error" where
  "exhausted this lastError =
     QueryError (''Failed after '' @ show_int (maxRetries this + 1) @ '' attempts'') lastError"

text \<open>
  The \<open>for\<close> loop of \<open>RetryDecorator.getCustomerDashboard\<close>, entered with the loop
  variable \<open>attempt\<close>, the \<open>lastError\<close> seen so far (\<open>None\<close>: undefined), the inner
  state and the delays slept so far. Leaving the loop, by \<open>break\<close> or by its
  condition, reaches the \<open>throw new QueryError\<close> after it.
\<close>

function retry_loop ::
  "('s, 'a) executor \<Rightarrow> RetryDecorator \<Rightarrow> int \<Rightarrow> int \<Rightarrow> error option \<Rightarrow> 's \<Rightarrow> int list
     \<Rightarrow> (error + 'a) \<times> 's \<times> int list" where
  "retry_loop executor this customerId attempt lastError s slept =
     (if attempt \<le> maxRetries this then
        (case executor s customerId of
           (Inr result, s') \<Rightarrow> (Inr result, s', slept)
         | (Inl error, s') \<Rightarrow>
             if name error = ''ValidationError'' then (Inl error, s', slept)
             else if attempt = maxRetries this then (Inl (exhausted this (Some error)), s', slept)
             else
               (let delay = initialDelay this * 2 ^ nat attempt
                in retry_loop executor this customerId (attempt + 1) (Some error) s'
                     (slept @ [delay])))
      else (Inl (exhausted this lastError), s, slept))"
  by pat_completeness auto
termination
  by (relation "measure (\<lambda>(executor, this, customerId, attempt, lastError, s, slept).
                  nat (maxRetries this + 1 - attempt))") auto

declare retry_loop.simps [simp del]

definition RetryDecorator_getCustomerDashboard ::
  "('s, 'a) executor \<Rightarrow> RetryDecorator \<Rightarrow> int \<Rightarrow> 's \<Rightarrow> (error + 'a) \<times> 's \<times> int list" where
  "RetryDecorator_getCustomerDashboard executor this customerId s =
     retry_loop executor this customerId 0 None s []"

subsection \<open>MetricsDecorator\<close>

record metrics =
  totalQueries :: nat
  successfulQueries :: nat
  failedQueries :: nat
  totalDuration :: int
  latencies :: "int list"

definition new_metrics :: metrics where
  "new_metrics = \<lparr>totalQueries = 0, successfulQueries = 0, failedQueries = 0,
                   totalDuration = 0, latencies = []\<rparr>"




text \<open>
  Percentile selection as both \<open>getMetrics\<close> and \<open>getSummary\<close> write it:
  \<open>sorted[Math.floor(sorted.length * p)]\<close> on the copy sorted ascending by
  \<open>(a, b) => a - b\<close>, for \<open>p\<close> = 0.5, 0.95 and 0.99, given here in hundredths. An
  index past the end reads \<open>undefined\<close> (\<open>None\<close>).
\<close>

definition element_at :: "int list \<Rightarrow> nat \<Rightarrow> int option" where
  "element_at xs i = (if i < length xs then Some (xs ! i) else None)"

definition percentile_index :: "nat \<Rightarrow> nat \<Rightarrow> nat" where
  "percentile_index len hundredths = (len * hundredths) div 100"

text \<open>\<open>x || 0\<close> on a number or \<open>undefined\<close>: \<open>undefined\<close> and 0 give 0.\<close>

definition or_zero :: "int option \<Rightarrow> int" where
  "or_zero v = (case v of None \<Rightarrow> 0 | Some x \<Rightarrow> if x = 0 then 0 else x)"

text \<open>
  The result of \<open>getMetrics\<close>: the spread counters, the three percentiles and the two
  ratios. The ratios are given as exact quotients; the program renders them with
  \<open>toFixed(2)\<close> when \<open>totalQueries > 0\<close> and as the number 0 otherwise.
\<close>

record metrics_report = metrics +
  averageLatency :: rat
  p50 :: int
  p95 :: int
  p99 :: int
  successRate :: rat

definition getMetrics :: "metrics \<Rightarrow> metrics_report" where
  "getMetrics m =
     (let sorted_latencies = sort (latencies m)
      in metrics.extend m
           \<lparr>averageLatency =
              (if totalQueries m > 0 then of_int (totalDuration m) / of_nat (totalQueries m)
               else 0),
            p50 = or_zero (element_at sorted_latencies
                    (percentile_index (length sorted_latencies) 50)),
            p95 = or_zero (element_at sorted_latencies
                    (percentile_index (length sorted_latencies) 95)),
            p99 = or_zero (element_at sorted_latencies
                    (percentile_index (length sorted_latencies) 99)),
            successRate =
              (if totalQueries m > 0
               then (of_nat (successfulQueries m) / of_nat (totalQueries m)) * 100
               else 0)\<rparr>)"

subsection \<open>CircuitBreakerDecorator\<close>

datatype breaker_state = CLOSED | OPEN | HALF_OPEN

record CircuitBreakerDecorator =
  threshold :: int
  resetTimeout :: int
  failureCount :: int
  state :: breaker_state
  nextAttempt :: "int option"

definition new_CircuitBreakerDecorator :: "int \<Rightarrow> int \<Rightarrow> CircuitBreakerDecorator" where
  "new_CircuitBreakerDecorator thr rst =
     \<lparr>threshold = thr, resetTimeout = rst, failureCount = 0, state = CLOSED,
      nextAttempt = None\<rparr>"

definition onSuccess :: "CircuitBreakerDecorator \<Rightarrow> CircuitBreakerDecorator" where
  "onSuccess this =
     (let this1 = this\<lparr>failureCount := 0\<rparr>
      in if state this1 = HALF_OPEN then this1\<lparr>state := CLOSED\<rparr> else this1)"

text \<open>\<open>_onFailure\<close>; \<open>now\<close> is the clock it reads when it opens the circuit.\<close>

definition onFailure :: "int \<Rightarrow> CircuitBreakerDecorator \<Rightarrow> CircuitBreakerDecorator" where
  "onFailure now this =
     (let this1 = this\<lparr>failureCount := failureCount this + 1\<rparr>
      in if failureCount this1 \<ge> threshold this1
         then this1\<lparr>state := OPEN, nextAttempt := Some (now + resetTimeout this1)\<rparr>
         else this1)"

text \<open>\<open>Date.now() < this.nextAttempt\<close>: in a comparison \<open>null\<close> counts as 0.\<close>

definition before_nextAttempt :: "int \<Rightarrow> int option \<Rightarrow> bool" where
  "before_nextAttempt now next = (case next of None \<Rightarrow> now < 0 | Some t \<Rightarrow> now < t)"

definition circuit_open_error :: error where
  "circuit_open_error = Error ''Error'' ''Circuit breaker is OPEN - service unavailable'' None"

text \<open>
  The first part of \<open>CircuitBreakerDecorator.getCustomerDashboard\<close>, up to the
  \<open>await\<close>: the guard. It throws the circuit-open error, or lets the call pass, as the
  trial (state set to \<open>HALF_OPEN\<close>) when the circuit was open.
\<close>

definition guard :: "int \<Rightarrow> CircuitBreakerDecorator \<Rightarrow> error + CircuitBreakerDecorator" where
  "guard callTime this =
     (if state this = OPEN then
        (if before_nextAttempt callTime (nextAttempt this)
         then Inl circuit_open_error
         else Inr (this\<lparr>state := HALF_OPEN\<rparr>))
      else Inr this)"

text \<open>
  The second part: the \<open>try\<close> around the inner call, with \<open>_onSuccess\<close> or
  \<open>_onFailure\<close> run when the inner call has settled.
\<close>

definition attempt_inner ::
  "('s, 'a) executor \<Rightarrow> int \<Rightarrow> int \<Rightarrow> CircuitBreakerDecorator \<times> 's
     \<Rightarrow> (error + 'a) \<times> CircuitBreakerDecorator \<times> 's" where
  "attempt_inner executor failTime customerId bs =
     (case bs of (this, s) \<Rightarrow>
        (case executor s customerId of
           (Inr result, s') \<Rightarrow> (Inr result, onSuccess this, s')
         | (Inl error, s') \<Rightarrow> (Inl error, onFailure failTime this, s')))"

text \<open>
  \<open>CircuitBreakerDecorator.getCustomerDashboard\<close> for a call that no other call
  overlaps: the guard, the inner call, the bookkeeping, with nothing in between.
  \<open>callTime\<close> is the clock read by the guard, \<open>failTime\<close> the clock read by
  \<open>_onFailure\<close>.
\<close>

definition CircuitBreakerDecorator_getCustomerDashboard ::
  "('s, 'a) executor \<Rightarrow> int \<Rightarrow> int \<Rightarrow> int \<Rightarrow> CircuitBreakerDecorator \<times> 's
     \<Rightarrow> (error + 'a) \<times> CircuitBreakerDecorator \<times> 's" where
  "CircuitBreakerDecorator_getCustomerDashboard executor callTime failTime customerId bs =
     (case bs of (this, s) \<Rightarrow>
        (case guard callTime this of
           Inl e \<Rightarrow> (Inl e, this, s)
         | Inr this1 \<Rightarrow> attempt_inner executor failTime customerId (this1, s)))"

text \<open>
  A run of calls through one circuit breaker, one after the other, none overlapping
  another; each call brings its two clock readings and its customer id.
\<close>

fun breaker_calls ::
  "('s, 'a) executor \<Rightarrow> (int \<times> int \<times> int) list \<Rightarrow> CircuitBreakerDecorator \<times> 's
     \<Rightarrow> CircuitBreakerDecorator \<times> 's" where
  "breaker_calls executor [] bs = bs"
| "breaker_calls executor ((callTime, failTime, customerId) # rest) bs =
     breaker_calls executor rest
       (snd (CircuitBreakerDecorator_getCustomerDashboard executor callTime failTime customerId bs))"

text \<open>
  Calls that overlap. The method is \<open>async\<close>: it suspends at the \<open>await\<close> of the inner
  call, and other calls run meanwhile. What the breaker sees of the calls is a sequence
  of moments: a call arrives and runs the guard (\<open>Arrives callTime\<close>), or the inner
  call of some admitted call settles and \<open>_onSuccess\<close> (\<open>InnerResolves\<close>) or
  \<open>_onFailure\<close> (\<open>InnerRejects failTime\<close>) runs. Each moment runs to its end
  undisturbed. The number of admitted calls still in flight is carried along; a
  sequence in which an inner call settles while none is in flight cannot happen
  (\<open>None\<close>).
\<close>

datatype moment = Arrives int | InnerResolves | InnerRejects int

fun moment_step ::
  "moment \<Rightarrow> CircuitBreakerDecorator \<times> nat \<Rightarrow> (CircuitBreakerDecorator \<times> nat) option" where
  "moment_step (Arrives callTime) (this, in_flight) =
     (case guard callTime this of
        Inl e \<Rightarrow> Some (this, in_flight)
      | Inr this1 \<Rightarrow> Some (this1, Suc in_flight))"
| "moment_step InnerResolves (this, in_flight) =
     (if in_flight = 0 then None else Some (onSuccess this, in_flight - 1))"
| "moment_step (InnerRejects failTime) (this, in_flight) =
     (if in_flight = 0 then None else Some (onFailure failTime this, in_flight - 1))"

fun moments ::
  "moment list \<Rightarrow> CircuitBreakerDecorator \<times> nat \<Rightarrow> (CircuitBreakerDecorator \<times> nat) option" where
  "moments [] bp = Some bp"
| "moments (m # ms) bp =
     (case moment_step m bp of
        None \<Rightarrow> None
      | Some bp' \<Rightarrow> moments ms bp')"

section \<open>Performance monitor (PerformanceMonitor.js)\<close>

record queryInfo =
  strategy :: string
  customerId :: int
  duration :: int
  success :: bool
  error :: "string option"

text \<open>An entry of \<open>metrics.queries\<close>: \<open>{...queryInfo, timestamp: Date.now()}\<close>.\<close>

record query_entry = queryInfo +
  timestamp :: int

record alert =
  alert_type :: string
  alert_message :: string
  alert_data :: queryInfo
  alert_timestamp :: int

text \<open>The two shapes of event handed to \<open>notify\<close>: \<open>{type, data}\<close>.\<close>

datatype event = QUERY_EXECUTED queryInfo | ALERT alert

text \<open>
  An observer object: \<open>obs_id\<close> stands for its identity, \<open>update\<close> for its method
  (\<open>None\<close>: the object has no function \<open>update\<close>). Applied to an event the method
  returns normally (\<open>None\<close>) or throws (\<open>Some e\<close>).
\<close>

record observer =
  obs_id :: nat
  update :: "(event \<Rightarrow> error option) option"

text \<open>
  The monitor's fields, and with them the log of the \<open>update\<close> calls it has made:
  which observer was called with which event, in call order.
\<close>

record PerformanceMonitor =
  observers :: "observer list"
  queries :: "query_entry list"
  alerts :: "alert list"
  update_log :: "(nat \<times> event) list"

definition new_PerformanceMonitor :: PerformanceMonitor where
  "new_PerformanceMonitor = \<lparr>observers = [], queries = [], alerts = [], update_log = []\<rparr>"

definition subscribe :: "observer \<Rightarrow> PerformanceMonitor \<Rightarrow> error + PerformanceMonitor" where
  "subscribe obs this =
     (case update obs of
        None \<Rightarrow> Inl (Error ''Error'' ''Observer must implement update() method'' None)
      | Some _ \<Rightarrow> Inr (this\<lparr>observers := observers this @ [obs]\<rparr>))"

definition unsubscribe :: "observer \<Rightarrow> PerformanceMonitor \<Rightarrow> PerformanceMonitor" where
  "unsubscribe obs this =
     this\<lparr>observers := filter (\<lambda>ob. obs_id ob \<noteq> obs_id obs) (observers this)\<rparr>"

text \<open>
  The \<open>for ... of\<close> loop of \<open>notify\<close> over the observers still to be called. Nothing
  catches what \<open>update\<close> throws: the loop ends there and the error leaves \<open>notify\<close>.
  Calling a missing \<open>update\<close> is a \<open>TypeError\<close>.
\<close>

fun notify_loop ::
  "observer list \<Rightarrow> event \<Rightarrow> (nat \<times> event) list \<Rightarrow> error option \<times> (nat \<times> event) list" where
  "notify_loop [] ev made = (None, made)"
| "notify_loop (ob # rest) ev made =
     (case update ob of
        None \<Rightarrow> (Some (Error ''TypeError'' ''observer.update is not a function'' None), made)
      | Some f \<Rightarrow>
          (case f ev of
             Some e \<Rightarrow> (Some e, made @ [(obs_id ob, ev)])
           | None \<Rightarrow> notify_loop rest ev (made @ [(obs_id ob, ev)])))"

definition notify :: "event \<Rightarrow> PerformanceMonitor \<Rightarrow> error option \<times> PerformanceMonitor" where
  "notify ev this =
     (case notify_loop (observers this) ev (update_log this) of
        (res, made) \<Rightarrow> (res, this\<lparr>update_log := made\<rparr>))"

text \<open>\<open>if (queryInfo.error)\<close>: \<open>undefined\<close>, \<open>null\<close> and the empty string are falsy.\<close>

definition has_error :: "queryInfo \<Rightarrow> bool" where
  "has_error q = (case error q of None \<Rightarrow> False | Some msg \<Rightarrow> msg \<noteq> [])"

definition slow_alert :: "queryInfo \<Rightarrow> int \<Rightarrow> alert" where
  "slow_alert q now =
     \<lparr>alert_type = ''SLOW_QUERY'',
      alert_message = ''Slow query detected: '' @ show_int (duration q) @ ''ms'',
      alert_data = q, alert_timestamp = now\<rparr>"

definition error_alert :: "queryInfo \<Rightarrow> int \<Rightarrow> alert" where
  "error_alert q now =
     \<lparr>alert_type = ''QUERY_ERROR'',
      alert_message = ''Query error: '' @ (case error q of None \<Rightarrow> [] | Some msg \<Rightarrow> msg),
      alert_data = q, alert_timestamp = now\<rparr>"

text \<open>
  \<open>_checkPerformance\<close>, in two steps as the source has two \<open>if\<close>s; \<open>slowTime\<close> and
  \<open>errorTime\<close> are the clock readings of the two alerts. An error thrown by the first
  \<open>notify\<close> skips the second \<open>if\<close>.
\<close>

definition check_slow :: "queryInfo \<Rightarrow> int \<Rightarrow> PerformanceMonitor \<Rightarrow> error option \<times> PerformanceMonitor" where
  "check_slow q slowTime this =
     (if duration q > 1000 then
        (let a = slow_alert q slowTime
         in notify (ALERT a) (this\<lparr>alerts := alerts this @ [a]\<rparr>))
      else (None, this))"

definition check_error :: "queryInfo \<Rightarrow> int \<Rightarrow> PerformanceMonitor \<Rightarrow> error option \<times> PerformanceMonitor" where
  "check_error q errorTime this =
     (if has_error q then
        (let a = error_alert q errorTime
         in notify (ALERT a) (this\<lparr>alerts := alerts this @ [a]\<rparr>))
      else (None, this))"

definition checkPerformance ::
  "queryInfo \<Rightarrow> int \<Rightarrow> int \<Rightarrow> PerformanceMonitor \<Rightarrow> error option \<times> PerformanceMonitor" where
  "checkPerformance q slowTime errorTime this =
     (case check_slow q slowTime this of
        (Some e, this1) \<Rightarrow> (Some e, this1)
      | (None, this1) \<Rightarrow> check_error q errorTime this1)"

text \<open>
  \<open>recordQuery(queryInfo)\<close>; \<open>now\<close> is the clock reading stored with the entry. The
  result is the error thrown, if any, and the monitor after the call.
\<close>

definition recordQuery ::
  "queryInfo \<Rightarrow> int \<Rightarrow> int \<Rightarrow> int \<Rightarrow> PerformanceMonitor \<Rightarrow> error option \<times> PerformanceMonitor" where
  "recordQuery q now slowTime errorTime this =
     (let this1 = this\<lparr>queries := queries this @ [queryInfo.extend q \<lparr>timestamp = now\<rparr>]\<rparr>
      in case checkPerformance q slowTime errorTime this1 of
           (Some e, this2) \<Rightarrow> (Some e, this2)
         | (None, this2) \<Rightarrow> notify (QUERY_EXECUTED q) this2)"

definition clear :: "PerformanceMonitor \<Rightarrow> PerformanceMonitor" where
  "clear this = this\<lparr>queries := [], alerts := []\<rparr>"

text \<open>
  The object returned by \<open>getSummary\<close>. \<open>avgDuration\<close> is the exact quotient that the
  program renders with \<open>toFixed(2)\<close>; a percentile is \<open>None\<close> where the program reads
  \<open>undefined\<close>.
\<close>

record summary =
  sum_totalQueries :: nat
  sum_avgDuration :: rat
  sum_p50 :: "int option"
  sum_p95 :: "int option"
  sum_p99 :: "int option"
  sum_alerts :: nat

definition getSummary :: "PerformanceMonitor \<Rightarrow> summary option" where
  "getSummary this =
     (let qs = queries this
      in if length qs = 0 then None
         else
           (let durations = map duration qs;
                sorted_durations = sort durations
            in Some
                 \<lparr>sum_totalQueries = length qs,
                  sum_avgDuration = of_int (foldl (+) 0 durations) / of_nat (length durations),
                  sum_p50 = element_at sorted_durations
                              (percentile_index (length sorted_durations) 50),
                  sum_p95 = element_at sorted_durations
                              (percentile_index (length sorted_durations) 95),
                  sum_p99 = element_at sorted_durations
                              (percentile_index (length sorted_durations) 99),
                  sum_alerts = length (alerts this)\<rparr>))"

text \<open>
  A run of \<open>recordQuery\<close> calls on one monitor; each call brings its event and its
  three clock readings. An error thrown by an observer ends that call only: the caller
  goes on with the next one.
\<close>

fun record_calls ::
  "(queryInfo \<times> int \<times> int \<times> int) list \<Rightarrow> PerformanceMonitor \<Rightarrow> PerformanceMonitor" where
  "record_calls [] this = this"
| "record_calls ((q, now, slowTime, errorTime) # rest) this =
     record_calls rest (snd (recordQuery q now slowTime errorTime this))"

text \<open>
  The events one \<open>recordQuery\<close> call hands to \<open>notify\<close>, in order, when no observer
  throws: the slow-query alert, the error alert, then \<open>QUERY_EXECUTED\<close>.
\<close>

definition events_of :: "queryInfo \<Rightarrow> int \<Rightarrow> int \<Rightarrow> event list" where
  "events_of q slowTime errorTime =
     (if duration q > 1000 then [ALERT (slow_alert q slowTime)] else [])
     @ (if has_error q then [ALERT (error_alert q errorTime)] else [])
     @ [QUERY_EXECUTED q]"

text \<open>
  The notifications of one call seen as a loop over its events: each event goes through
  \<open>notify\<close>'s loop, and the first error ends the whole sequence.
\<close>

fun notify_each ::
  "observer list \<Rightarrow> event list \<Rightarrow> (nat \<times> event) list \<Rightarrow> error option \<times> (nat \<times> event) list" where
  "notify_each obs [] made = (None, made)"
| "notify_each obs (ev # evs) made =
     (case notify_loop obs ev made of
        (Some e, made') \<Rightarrow> (Some e, made')
      | (None, made') \<Rightarrow> notify_each obs evs made')"

text \<open>The \<open>update\<close> calls made for a list of events that both of two observers accept.\<close>

definition to_both :: "observer \<Rightarrow> observer \<Rightarrow> event list \<Rightarrow> (nat \<times> event) list" where
  "to_both o1 o2 evs = concat (map (\<lambda>ev. [(obs_id o1, ev), (obs_id o2, ev)]) evs)"

text \<open>
  Three \<open>update\<close> methods for examples: one returns, one throws \<open>e\<close>, one throws
  \<open>e\<close> on \<open>QUERY_EXECUTED\<close> only.
\<close>

definition returns :: "event \<Rightarrow> error option" where
  "returns ev = None"

definition throws :: "error \<Rightarrow> event \<Rightarrow> error option" where
  "throws e ev = Some e"

definition throws_on_query :: "error \<Rightarrow> event \<Rightarrow> error option" where
  "throws_on_query e ev = (case ev of QUERY_EXECUTED q \<Rightarrow> Some e | ALERT a \<Rightarrow> None)"

section \<open>Verified properties\<close>

text \<open>
  C9. For every list of rows handed over by the store gateway, the record built by
  \<open>_formatCustomerDashboard\<close> has a null customer exactly when the row list is empty,
  in that case it is exactly \<open>{customer: null, orders: []}\<close>, and hence a null
  customer implies that the orders are empty.
\<close>

theorem formatCustomerDashboard_null_customer:
  "(customer (formatCustomerDashboard rows) = None \<longleftrightarrow> rows = [])
   \<and> (rows = [] \<longrightarrow> formatCustomerDashboard rows = \<lparr>customer = None, orders = []\<rparr>)
   \<and> (customer (formatCustomerDashboard rows) = None
        \<longrightarrow> orders (formatCustomerDashboard rows) = [])"
  by (cases rows) (simp_all add: formatCustomerDashboard_def)

theorem formatCustomerDashboard_null_customer_witness:
  "customer (formatCustomerDashboard []) = None
   \<and> formatCustomerDashboard [] = \<lparr>customer = None, orders = []\<rparr>
   \<and> orders (formatCustomerDashboard []) = []"
  using formatCustomerDashboard_null_customer [of "[]"] by simp

subsection \<open>The monitor's history\<close>

lemma notify_queries: "queries (snd (notify ev this)) = queries this"
  by (simp add: notify_def split: prod.splits)

lemma check_slow_queries: "queries (snd (check_slow q t this)) = queries this"
  by (simp add: check_slow_def Let_def notify_queries)

lemma check_error_queries: "queries (snd (check_error q t this)) = queries this"
  by (simp add: check_error_def Let_def notify_queries)

lemma checkPerformance_queries: "queries (snd (checkPerformance q t1 t2 this)) = queries this"
  using check_slow_queries [of q t1 this] check_error_queries [of q t2 "snd (check_slow q t1 this)"]
  by (auto simp: checkPerformance_def split: prod.splits option.splits)

lemma recordQuery_queries:
  "queries (snd (recordQuery q now t1 t2 this))
     = queries this @ [queryInfo.extend q \<lparr>timestamp = now\<rparr>]"
proof -
  let ?this1 = "this\<lparr>queries := queries this @ [queryInfo.extend q \<lparr>timestamp = now\<rparr>]\<rparr>"
  obtain r this2 where c: "checkPerformance q t1 t2 ?this1 = (r, this2)"
    by (cases "checkPerformance q t1 t2 ?this1")
  have q2: "queries this2 = queries ?this1"
    using checkPerformance_queries [of q t1 t2 ?this1] c by simp
  show ?thesis
    using c q2 notify_queries [of "QUERY_EXECUTED q" this2]
    by (cases r) (simp_all add: recordQuery_def Let_def)
qed

lemma record_calls_length:
  "length (queries (record_calls cs this)) = length (queries this) + length cs"
  by (induction cs arbitrary: this) (auto simp: recordQuery_queries)

text \<open>
  C10. \<open>getSummary\<close> returns null exactly when the recorded history is empty, as it is
  on a new monitor and after \<open>clear\<close>; on a non-empty history it returns an object
  whose \<open>totalQueries\<close> is the number of recorded events, so that after any run of
  \<open>recordQuery\<close> calls on an empty history it is the number of calls, whether or not
  an observer threw.
\<close>

theorem getSummary_null_or_total:
  "getSummary new_PerformanceMonitor = None
   \<and> getSummary (clear this) = None
   \<and> (getSummary this = None \<longleftrightarrow> queries this = [])
   \<and> (queries this \<noteq> [] \<longrightarrow>
        (\<exists>s. getSummary this = Some s \<and> sum_totalQueries s = length (queries this)))
   \<and> (queries this = [] \<and> cs \<noteq> [] \<longrightarrow>
        (\<exists>s. getSummary (record_calls cs this) = Some s \<and> sum_totalQueries s = length cs))"
proof -
  have "queries this = [] \<and> cs \<noteq> [] \<longrightarrow>
        (\<exists>s. getSummary (record_calls cs this) = Some s \<and> sum_totalQueries s = length cs)"
  proof
    assume a: "queries this = [] \<and> cs \<noteq> []"
    have "length (queries (record_calls cs this)) = length cs"
      using a record_calls_length [of cs this] by simp
    moreover have "queries (record_calls cs this) \<noteq> []"
      using a record_calls_length [of cs this] by (cases "queries (record_calls cs this)") auto
    ultimately show "\<exists>s. getSummary (record_calls cs this) = Some s \<and> sum_totalQueries s = length cs"
      by (simp add: getSummary_def Let_def)
  qed
  then show ?thesis
    by (simp add: getSummary_def Let_def new_PerformanceMonitor_def clear_def)
qed

theorem getSummary_null_or_total_witness:
  "queries new_PerformanceMonitor = []
   \<and> (\<exists>s. getSummary
             (record_calls
                [(\<lparr>strategy = ''Redis Cache'', customerId = 7, duration = 12, success = True,
                   error = None\<rparr>, 100, 100, 100),
                 (\<lparr>strategy = ''Redis Cache'', customerId = 8, duration = 1500, success = False,
                   error = Some ''boom''\<rparr>, 200, 200, 200)]
                new_PerformanceMonitor) = Some s
          \<and> sum_totalQueries s = 2)"
  using getSummary_null_or_total
    [of new_PerformanceMonitor
        "[(\<lparr>strategy = ''Redis Cache'', customerId = 7, duration = 12, success = True,
            error = None\<rparr>, 100, 100, 100),
          (\<lparr>strategy = ''Redis Cache'', customerId = 8, duration = 1500, success = False,
            error = Some ''boom''\<rparr>, 200, 200, 200)]"]
  by (simp add: new_PerformanceMonitor_def numeral_2_eq_2)

subsection \<open>Percentiles\<close>


lemma percentile_index_less:
  "0 < len \<Longrightarrow> h < 100 \<Longrightarrow> percentile_index len h < len"
proof -
  assume a: "0 < len" "h < 100"
  have "len * h < len * 100" using a by simp
  then show ?thesis
    by (simp add: percentile_index_def less_mult_imp_div_less mult.commute)
qed

lemma or_zero_Some: "or_zero (Some x) = x"
  by (simp add: or_zero_def)

lemma sort_eq_of_mset: "mset xs = mset ys \<Longrightarrow> sort xs = sort (ys :: int list)"
  by (metis sorted_list_of_multiset_mset)

lemma element_at_sorted:
  "xs \<noteq> [] \<Longrightarrow> h < 100 \<Longrightarrow>
   element_at (sort xs) (percentile_index (length (sort xs)) h)
     = Some (sort xs ! ((length xs * h) div 100))"
  using percentile_index_less [of "length xs" h]
  by (simp add: element_at_def) (simp add: percentile_index_def)

text \<open>
  C8. On a non-empty history, \<open>getSummary\<close> selects its p50, p95 and p99 exactly as
  \<open>getMetrics\<close> does: the element of the ascending sort at index
  \<open>floor(count * percentile)\<close>. Given the same multiset of samples the two return the
  same three values.
\<close>

theorem getSummary_percentiles_as_getMetrics:
  assumes "queries this \<noteq> []"
    and "mset (map duration (queries this)) = mset (latencies m)"
  shows "\<exists>s. getSummary this = Some s
           \<and> sum_p50 s = Some (p50 (getMetrics m))
           \<and> sum_p95 s = Some (p95 (getMetrics m))
           \<and> sum_p99 s = Some (p99 (getMetrics m))
           \<and> p50 (getMetrics m) = sort (latencies m) ! ((length (latencies m) * 50) div 100)
           \<and> p95 (getMetrics m) = sort (latencies m) ! ((length (latencies m) * 95) div 100)
           \<and> p99 (getMetrics m) = sort (latencies m) ! ((length (latencies m) * 99) div 100)"
proof -
  define ds where "ds = map duration (queries this)"
  define ls where "ls = latencies m"
  have nd: "ds \<noteq> []" using assms(1) by (simp add: ds_def)
  have ne: "ls \<noteq> []" using assms nd by (auto simp: ds_def ls_def)
  have srt: "sort ds = sort ls"
    using assms(2) unfolding ds_def ls_def by (rule sort_eq_of_mset)
  have leq: "length ds = length ls"
    using assms(2) unfolding ds_def ls_def by (metis size_mset)
  have pick: "sort ds ! ((length ds * h) div 100) = sort ls ! ((length ls * h) div 100)" for h
    using srt leq by simp
  have m50: "p50 (getMetrics m) = sort ls ! ((length ls * 50) div 100)"
    using element_at_sorted [OF ne, of 50]
    by (simp add: getMetrics_def Let_def metrics.extend_def or_zero_Some ls_def)
  have m95: "p95 (getMetrics m) = sort ls ! ((length ls * 95) div 100)"
    using element_at_sorted [OF ne, of 95]
    by (simp add: getMetrics_def Let_def metrics.extend_def or_zero_Some ls_def)
  have m99: "p99 (getMetrics m) = sort ls ! ((length ls * 99) div 100)"
    using element_at_sorted [OF ne, of 99]
    by (simp add: getMetrics_def Let_def metrics.extend_def or_zero_Some ls_def)
  define s where "s = the (getSummary this)"
  have s: "getSummary this = Some s"
    using assms(1) by (simp add: s_def getSummary_def Let_def)
  have s50: "sum_p50 s = Some (sort ds ! ((length ds * 50) div 100))"
    using assms(1) element_at_sorted [OF nd, of 50]
    by (simp add: s_def getSummary_def Let_def ds_def)
  have s95: "sum_p95 s = Some (sort ds ! ((length ds * 95) div 100))"
    using assms(1) element_at_sorted [OF nd, of 95]
    by (simp add: s_def getSummary_def Let_def ds_def)
  have s99: "sum_p99 s = Some (sort ds ! ((length ds * 99) div 100))"
    using assms(1) element_at_sorted [OF nd, of 99]
    by (simp add: s_def getSummary_def Let_def ds_def)
  have "sum_p50 s = Some (p50 (getMetrics m))" using s50 m50 pick [of 50] by simp
  moreover have "sum_p95 s = Some (p95 (getMetrics m))" using s95 m95 pick [of 95] by simp
  moreover have "sum_p99 s = Some (p99 (getMetrics m))" using s99 m99 pick [of 99] by simp
  ultimately show ?thesis
    using s m50 m95 m99 unfolding ls_def by blast
qed

theorem getSummary_percentiles_as_getMetrics_witness:
  "queries (new_PerformanceMonitor\<lparr>queries :=
       [\<lparr>strategy = ''pg'', customerId = 1, duration = 30, success = True, error = None,
          timestamp = 1\<rparr>,
        \<lparr>strategy = ''pg'', customerId = 2, duration = 10, success = True, error = None,
          timestamp = 2\<rparr>,
        \<lparr>strategy = ''pg'', customerId = 3, duration = 20, success = True, error = None,
          timestamp = 3\<rparr>]\<rparr>) \<noteq> []
   \<and> p50 (getMetrics (new_metrics\<lparr>latencies := [10, 20, 30]\<rparr>)) = 20
   \<and> p95 (getMetrics (new_metrics\<lparr>latencies := [10, 20, 30]\<rparr>)) = 30
   \<and> (\<exists>s. getSummary (new_PerformanceMonitor\<lparr>queries :=
       [\<lparr>strategy = ''pg'', customerId = 1, duration = 30, success = True, error = None,
          timestamp = 1\<rparr>,
        \<lparr>strategy = ''pg'', customerId = 2, duration = 10, success = True, error = None,
          timestamp = 2\<rparr>,
        \<lparr>strategy = ''pg'', customerId = 3, duration = 20, success = True, error = None,
          timestamp = 3\<rparr>]\<rparr>) = Some s
         \<and> sum_p50 s = Some 20 \<and> sum_p95 s = Some 30 \<and> sum_p99 s = Some 30)"
  using getSummary_percentiles_as_getMetrics
    [of "new_PerformanceMonitor\<lparr>queries :=
       [\<lparr>strategy = ''pg'', customerId = 1, duration = 30, success = True, error = None,
          timestamp = 1\<rparr>,
        \<lparr>strategy = ''pg'', customerId = 2, duration = 10, success = True, error = None,
          timestamp = 2\<rparr>,
        \<lparr>strategy = ''pg'', customerId = 3, duration = 20, success = True, error = None,
          timestamp = 3\<rparr>]\<rparr>"
        "new_metrics\<lparr>latencies := [10, 20, 30]\<rparr>"]
  by (auto simp add: new_PerformanceMonitor_def new_metrics_def)

subsection \<open>The Metrics decorator\<close>









subsection \<open>Notification of observers\<close>

lemma notify_parts:
  "fst (notify ev this) = fst (notify_loop (observers this) ev (update_log this))
   \<and> update_log (snd (notify ev this)) = snd (notify_loop (observers this) ev (update_log this))
   \<and> observers (snd (notify ev this)) = observers this"
  by (simp add: notify_def split: prod.splits)

lemma check_slow_parts:
  "fst (check_slow q t this)
     = fst (notify_each (observers this)
              (if duration q > 1000 then [ALERT (slow_alert q t)] else []) (update_log this))
   \<and> update_log (snd (check_slow q t this))
     = snd (notify_each (observers this)
              (if duration q > 1000 then [ALERT (slow_alert q t)] else []) (update_log this))
   \<and> observers (snd (check_slow q t this)) = observers this"
  by (simp add: check_slow_def Let_def notify_def split: prod.splits option.splits)

lemma check_error_parts:
  "fst (check_error q t this)
     = fst (notify_each (observers this)
              (if has_error q then [ALERT (error_alert q t)] else []) (update_log this))
   \<and> update_log (snd (check_error q t this))
     = snd (notify_each (observers this)
              (if has_error q then [ALERT (error_alert q t)] else []) (update_log this))
   \<and> observers (snd (check_error q t this)) = observers this"
  by (simp add: check_error_def Let_def notify_def split: prod.splits option.splits)

lemma notify_each_append:
  "notify_each obs (xs @ ys) made =
     (case notify_each obs xs made of
        (Some e, made') \<Rightarrow> (Some e, made')
      | (None, made') \<Rightarrow> notify_each obs ys made')"
  by (induction xs arbitrary: made) (auto split: prod.splits option.splits)


lemma recordQuery_as_events:
  "fst (recordQuery q now st et this)
     = fst (notify_each (observers this) (events_of q st et) (update_log this))
   \<and> update_log (snd (recordQuery q now st et this))
     = snd (notify_each (observers this) (events_of q st et) (update_log this))"
proof -
  define this1 where "this1 = this\<lparr>queries := queries this @ [queryInfo.extend q \<lparr>timestamp = now\<rparr>]\<rparr>"
  define S where "S = (if duration q > 1000 then [ALERT (slow_alert q st)] else [])"
  define E where "E = (if has_error q then [ALERT (error_alert q et)] else [])"
  have evs: "events_of q st et = S @ E @ [QUERY_EXECUTED q]"
    by (simp add: events_of_def S_def E_def)
  have same: "observers this1 = observers this" "update_log this1 = update_log this"
    by (simp_all add: this1_def)
  obtain r1 m1 where c1: "check_slow q st this1 = (r1, m1)"
    by (cases "check_slow q st this1")
  have p1: "r1 = fst (notify_each (observers this) S (update_log this))"
      "update_log m1 = snd (notify_each (observers this) S (update_log this))"
      "observers m1 = observers this"
    using check_slow_parts [of q st this1] c1 same by (simp_all add: S_def)
  obtain r2 m2 where c2: "check_error q et m1 = (r2, m2)"
    by (cases "check_error q et m1")
  have p2: "r2 = fst (notify_each (observers this) E (update_log m1))"
      "update_log m2 = snd (notify_each (observers this) E (update_log m1))"
      "observers m2 = observers this"
    using check_error_parts [of q et m1] c2 p1(3) by (simp_all add: E_def)
  obtain r3 m3 where c3: "notify (QUERY_EXECUTED q) m2 = (r3, m3)"
    by (cases "notify (QUERY_EXECUTED q) m2")
  have p3: "r3 = fst (notify_each (observers this) [QUERY_EXECUTED q] (update_log m2))"
      "update_log m3 = snd (notify_each (observers this) [QUERY_EXECUTED q] (update_log m2))"
    using notify_parts [of "QUERY_EXECUTED q" m2] c3 p2(3)
    by (simp_all split: prod.splits option.splits)
  have rq: "recordQuery q now st et this
      = (case r1 of Some e \<Rightarrow> (Some e, m1)
         | None \<Rightarrow> (case r2 of Some e \<Rightarrow> (Some e, m2) | None \<Rightarrow> (r3, m3)))"
    using c1 c2 c3
    by (simp add: recordQuery_def checkPerformance_def Let_def this1_def [symmetric]
          split: option.splits)
  show ?thesis
    unfolding rq evs notify_each_append
    using p1(1,2) p2(1,2) p3
    by (cases r1; cases r2) (auto split: prod.splits option.splits)
qed


lemma notify_each_quiet_prefix:
  "update o1 = Some f1 \<Longrightarrow> update o2 = Some f2 \<Longrightarrow>
   \<forall>x \<in> set pre. f1 x = None \<and> f2 x = None \<Longrightarrow>
   notify_each [o1, o2] (pre @ rest) made
     = notify_each [o1, o2] rest (made @ to_both o1 o2 pre)"
  by (induction pre arbitrary: made) (simp_all add: to_both_def)

lemma notify_each_outcomes:
  assumes "update o1 = Some f1" "update o2 = Some f2"
    and "\<forall>x \<in> set pre. f1 x = None \<and> f2 x = None"
  shows "notify_each [o1, o2] pre made = (None, made @ to_both o1 o2 pre)"
    and "f1 ev = Some e \<Longrightarrow>
         notify_each [o1, o2] (pre @ ev # post) made
           = (Some e, made @ to_both o1 o2 pre @ [(obs_id o1, ev)])"
    and "f1 ev = None \<Longrightarrow> f2 ev = Some e \<Longrightarrow>
         notify_each [o1, o2] (pre @ ev # post) made
           = (Some e, made @ to_both o1 o2 pre @ [(obs_id o1, ev), (obs_id o2, ev)])"
  using notify_each_quiet_prefix [OF assms, of "[]" made]
    notify_each_quiet_prefix [OF assms, of "ev # post" made] assms(1,2)
  by simp_all

text \<open>
  C3 (as the code has it). On a monitor with two subscribed observers, one
  \<open>recordQuery\<close> call appends the event to the history and then takes the events it
  notifies in turn (the slow-query alert, the error alert, then \<open>QUERY_EXECUTED\<close>),
  calling \<open>update\<close> on the first observer and then on the second for each, until an
  \<open>update\<close> throws. If none throws, every event reaches both observers in subscription
  order. The first \<open>update\<close> that throws ends the call: its error leaves
  \<open>recordQuery\<close> and no further \<open>update\<close> is made. So when it is the first observer
  that throws on an event, the second observer is notified neither of that event nor of
  any later one (it has been notified of the events before it); when it is the second,
  the first has already been called for that event. In every case the history holds the
  recorded event.
\<close>

theorem recordQuery_two_observers:
  assumes "observers this = [o1, o2]" "update o1 = Some f1" "update o2 = Some f2"
  shows "queries (snd (recordQuery q now slowTime errorTime this))
           = queries this @ [queryInfo.extend q \<lparr>timestamp = now\<rparr>]
    \<and> ((\<forall>ev \<in> set (events_of q slowTime errorTime). f1 ev = None \<and> f2 ev = None) \<longrightarrow>
          fst (recordQuery q now slowTime errorTime this) = None
          \<and> update_log (snd (recordQuery q now slowTime errorTime this))
               = update_log this @ to_both o1 o2 (events_of q slowTime errorTime))
    \<and> (events_of q slowTime errorTime = pre @ ev # post
          \<and> (\<forall>x \<in> set pre. f1 x = None \<and> f2 x = None) \<and> f1 ev = Some e \<longrightarrow>
          fst (recordQuery q now slowTime errorTime this) = Some e
          \<and> update_log (snd (recordQuery q now slowTime errorTime this))
               = update_log this @ to_both o1 o2 pre @ [(obs_id o1, ev)])
    \<and> (events_of q slowTime errorTime = pre @ ev # post
          \<and> (\<forall>x \<in> set pre. f1 x = None \<and> f2 x = None) \<and> f1 ev = None \<and> f2 ev = Some e \<longrightarrow>
          fst (recordQuery q now slowTime errorTime this) = Some e
          \<and> update_log (snd (recordQuery q now slowTime errorTime this))
               = update_log this @ to_both o1 o2 pre @ [(obs_id o1, ev), (obs_id o2, ev)])"
proof -
  note ev = recordQuery_as_events [of q now slowTime errorTime this, unfolded assms(1)]
  have quiet: "(\<forall>ev \<in> set (events_of q slowTime errorTime). f1 ev = None \<and> f2 ev = None) \<longrightarrow>
          fst (recordQuery q now slowTime errorTime this) = None
          \<and> update_log (snd (recordQuery q now slowTime errorTime this))
               = update_log this @ to_both o1 o2 (events_of q slowTime errorTime)"
    using ev notify_each_outcomes(1) [OF assms(2,3), of "events_of q slowTime errorTime" "update_log this"]
    by simp
  have first: "events_of q slowTime errorTime = pre @ ev # post
          \<and> (\<forall>x \<in> set pre. f1 x = None \<and> f2 x = None) \<and> f1 ev = Some e \<longrightarrow>
          fst (recordQuery q now slowTime errorTime this) = Some e
          \<and> update_log (snd (recordQuery q now slowTime errorTime this))
               = update_log this @ to_both o1 o2 pre @ [(obs_id o1, ev)]"
    using ev notify_each_outcomes(2) [OF assms(2,3), of pre ev e post "update_log this"]
    by simp
  have second: "events_of q slowTime errorTime = pre @ ev # post
          \<and> (\<forall>x \<in> set pre. f1 x = None \<and> f2 x = None) \<and> f1 ev = None \<and> f2 ev = Some e \<longrightarrow>
          fst (recordQuery q now slowTime errorTime this) = Some e
          \<and> update_log (snd (recordQuery q now slowTime errorTime this))
               = update_log this @ to_both o1 o2 pre @ [(obs_id o1, ev), (obs_id o2, ev)]"
    using ev notify_each_outcomes(3) [OF assms(2,3), of pre ev e post "update_log this"]
    by simp
  show ?thesis
    using recordQuery_queries [of q now slowTime errorTime this] quiet first second
    by blast
qed

theorem recordQuery_two_observers_witness:
  "update_log (snd (recordQuery \<lparr>strategy = ''pg'', customerId = 4, duration = 1200, success = True, error = None\<rparr> 50 51 52 (\<lparr>observers = [\<lparr>obs_id = 1, update = Some returns\<rparr>, \<lparr>obs_id = 2, update = Some returns\<rparr>], queries = [], alerts = [], update_log = []\<rparr>)))
     = [(1, ALERT (slow_alert \<lparr>strategy = ''pg'', customerId = 4, duration = 1200, success = True, error = None\<rparr> 51)), (2, ALERT (slow_alert \<lparr>strategy = ''pg'', customerId = 4, duration = 1200, success = True, error = None\<rparr> 51)),
        (1, QUERY_EXECUTED \<lparr>strategy = ''pg'', customerId = 4, duration = 1200, success = True, error = None\<rparr>), (2, QUERY_EXECUTED \<lparr>strategy = ''pg'', customerId = 4, duration = 1200, success = True, error = None\<rparr>)]
   \<and> fst (recordQuery \<lparr>strategy = ''pg'', customerId = 4, duration = 1200, success = True, error = None\<rparr> 50 51 52 (\<lparr>observers = [\<lparr>obs_id = 1, update = Some (throws_on_query (Error ''Error'' ''disk full'' None))\<rparr>, \<lparr>obs_id = 2, update = Some returns\<rparr>], queries = [], alerts = [], update_log = []\<rparr>)) = Some (Error ''Error'' ''disk full'' None)
   \<and> update_log (snd (recordQuery \<lparr>strategy = ''pg'', customerId = 4, duration = 1200, success = True, error = None\<rparr> 50 51 52 (\<lparr>observers = [\<lparr>obs_id = 1, update = Some (throws_on_query (Error ''Error'' ''disk full'' None))\<rparr>, \<lparr>obs_id = 2, update = Some returns\<rparr>], queries = [], alerts = [], update_log = []\<rparr>)))
     = [(1, ALERT (slow_alert \<lparr>strategy = ''pg'', customerId = 4, duration = 1200, success = True, error = None\<rparr> 51)), (2, ALERT (slow_alert \<lparr>strategy = ''pg'', customerId = 4, duration = 1200, success = True, error = None\<rparr> 51)), (1, QUERY_EXECUTED \<lparr>strategy = ''pg'', customerId = 4, duration = 1200, success = True, error = None\<rparr>)]
   \<and> fst (recordQuery \<lparr>strategy = ''pg'', customerId = 4, duration = 12, success = True, error = None\<rparr> 50 51 52 (\<lparr>observers = [\<lparr>obs_id = 1, update = Some (throws (Error ''Error'' ''disk full'' None))\<rparr>, \<lparr>obs_id = 2, update = Some returns\<rparr>], queries = [], alerts = [], update_log = []\<rparr>)) = Some (Error ''Error'' ''disk full'' None)
   \<and> update_log (snd (recordQuery \<lparr>strategy = ''pg'', customerId = 4, duration = 12, success = True, error = None\<rparr> 50 51 52 (\<lparr>observers = [\<lparr>obs_id = 1, update = Some (throws (Error ''Error'' ''disk full'' None))\<rparr>, \<lparr>obs_id = 2, update = Some returns\<rparr>], queries = [], alerts = [], update_log = []\<rparr>))) = [(1, QUERY_EXECUTED \<lparr>strategy = ''pg'', customerId = 4, duration = 12, success = True, error = None\<rparr>)]
   \<and> queries (snd (recordQuery \<lparr>strategy = ''pg'', customerId = 4, duration = 12, success = True, error = None\<rparr> 50 51 52 (\<lparr>observers = [\<lparr>obs_id = 1, update = Some (throws (Error ''Error'' ''disk full'' None))\<rparr>, \<lparr>obs_id = 2, update = Some returns\<rparr>], queries = [], alerts = [], update_log = []\<rparr>)))
     = [\<lparr>strategy = ''pg'', customerId = 4, duration = 12, success = True, error = None,
         timestamp = 50\<rparr>]"
  using recordQuery_two_observers
      [where this = "\<lparr>observers = [\<lparr>obs_id = 1, update = Some returns\<rparr>, \<lparr>obs_id = 2, update = Some returns\<rparr>], queries = [], alerts = [], update_log = []\<rparr>" and ?o1.0 = "\<lparr>obs_id = 1, update = Some returns\<rparr>" and ?o2.0 = "\<lparr>obs_id = 2, update = Some returns\<rparr>" and ?f1.0 = returns and ?f2.0 = returns
         and q = "\<lparr>strategy = ''pg'', customerId = 4, duration = 1200, success = True, error = None\<rparr>" and now = 50 and slowTime = 51 and errorTime = 52
         and pre = "[]" and ev = "QUERY_EXECUTED \<lparr>strategy = ''pg'', customerId = 4, duration = 1200, success = True, error = None\<rparr>" and post = "[]" and e = "Error ''Error'' ''disk full'' None"]
    recordQuery_two_observers
      [where this = "\<lparr>observers = [\<lparr>obs_id = 1, update = Some (throws_on_query (Error ''Error'' ''disk full'' None))\<rparr>, \<lparr>obs_id = 2, update = Some returns\<rparr>], queries = [], alerts = [], update_log = []\<rparr>" and ?o1.0 = "\<lparr>obs_id = 1, update = Some (throws_on_query (Error ''Error'' ''disk full'' None))\<rparr>" and ?o2.0 = "\<lparr>obs_id = 2, update = Some returns\<rparr>"
         and ?f1.0 = "throws_on_query (Error ''Error'' ''disk full'' None)" and ?f2.0 = returns
         and q = "\<lparr>strategy = ''pg'', customerId = 4, duration = 1200, success = True, error = None\<rparr>" and now = 50 and slowTime = 51 and errorTime = 52
         and pre = "[ALERT (slow_alert \<lparr>strategy = ''pg'', customerId = 4, duration = 1200, success = True, error = None\<rparr> 51)]" and ev = "QUERY_EXECUTED \<lparr>strategy = ''pg'', customerId = 4, duration = 1200, success = True, error = None\<rparr>" and post = "[]"
         and e = "Error ''Error'' ''disk full'' None"]
    recordQuery_two_observers
      [where this = "\<lparr>observers = [\<lparr>obs_id = 1, update = Some (throws (Error ''Error'' ''disk full'' None))\<rparr>, \<lparr>obs_id = 2, update = Some returns\<rparr>], queries = [], alerts = [], update_log = []\<rparr>" and ?o1.0 = "\<lparr>obs_id = 1, update = Some (throws (Error ''Error'' ''disk full'' None))\<rparr>" and ?o2.0 = "\<lparr>obs_id = 2, update = Some returns\<rparr>"
         and ?f1.0 = "throws (Error ''Error'' ''disk full'' None)" and ?f2.0 = returns
         and q = "\<lparr>strategy = ''pg'', customerId = 4, duration = 12, success = True, error = None\<rparr>" and now = 50 and slowTime = 51 and errorTime = 52
         and pre = "[]" and ev = "QUERY_EXECUTED \<lparr>strategy = ''pg'', customerId = 4, duration = 12, success = True, error = None\<rparr>" and post = "[]" and e = "Error ''Error'' ''disk full'' None"]
  by (simp add: events_of_def has_error_def returns_def throws_def throws_on_query_def
        to_both_def queryInfo.extend_def)

text \<open>
  C3 as stated fails: with a first observer that throws, the only \<open>update\<close> call made
  is the one on the first observer.
\<close>

theorem second_observer_skipped_counterexample:
  "update_log (snd (recordQuery
       \<lparr>strategy = ''pg'', customerId = 4, duration = 12, success = True, error = None\<rparr>
       50 51 52
       \<lparr>observers = [\<lparr>obs_id = 1, update = Some (throws (Error ''Error'' ''disk full'' None))\<rparr>,
                     \<lparr>obs_id = 2, update = Some returns\<rparr>],
        queries = [], alerts = [], update_log = []\<rparr>))
     = [(1, QUERY_EXECUTED
              \<lparr>strategy = ''pg'', customerId = 4, duration = 12, success = True, error = None\<rparr>)]"
  by (simp add: recordQuery_def checkPerformance_def check_slow_def check_error_def has_error_def
        notify_def throws_def returns_def Let_def)

subsection \<open>The Cache-Aside strategy\<close>

text \<open>
  C1 (as the code has it). In a Cache-Aside fetch a failure of the cache layer is the
  failure of the fetch: an error of the cache get is thrown to the caller before the
  store is consulted, and an error of the cache write after a successful store read is
  thrown to the caller (after the client is released) in place of the store result.
\<close>

theorem cache_failure_fails_fetch:
  "(redis_get_fails w = Some e \<longrightarrow>
      RedisCacheStrategy_getCustomerDashboard rt cid this w
        = (Inl e, this, w\<lparr>io_log := io_log w @ [RedisGet (cacheKey_of cid)]\<rparr>))
   \<and> (redis_get_fails w = None \<and> \<not> truthy (cache w (cacheKey_of cid))
        \<and> pg_connect_fails w = None \<and> client_query_fails w = None
        \<and> redis_setex_fails w = Some e \<longrightarrow>
      RedisCacheStrategy_getCustomerDashboard rt cid this w
        = (Inl e, this\<lparr>cacheMisses := cacheMisses this + 1\<rparr>,
           w\<lparr>io_log := io_log w @
               [RedisGet (cacheKey_of cid), PgConnect, ClientQuery cid,
                RedisSetex (cacheKey_of cid) (redisTTL rt)
                  (JSON_stringify rt (formatCustomerDashboard (rows_of w cid))),
                ClientRelease]\<rparr>))"
  by (simp add: RedisCacheStrategy_getCustomerDashboard_def query_and_cache_def redis_get_def
        redis_setex_def pg_connect_def client_query_def client_release_def Let_def)

text \<open>
  C1 as stated fails: with the cache refusing connections the fetch fails with the
  cache's error, although the store would have answered; and with the cache refusing
  the write the fetch fails with that error, although the store has answered.
\<close>

theorem cache_get_failure_counterexample:
  "fst (RedisCacheStrategy_getCustomerDashboard sample_runtime 7 new_RedisCacheStrategy
          (sample_world\<lparr>redis_get_fails := Some (CacheError ''connect ECONNREFUSED'' None)\<rparr>))
     = Inl (CacheError ''connect ECONNREFUSED'' None)
   \<and> fst (RedisCacheStrategy_getCustomerDashboard sample_runtime 7 new_RedisCacheStrategy
          (sample_world\<lparr>redis_setex_fails := Some (CacheError ''READONLY'' None)\<rparr>))
     = Inl (CacheError ''READONLY'' None)"
  by (simp add: RedisCacheStrategy_getCustomerDashboard_def query_and_cache_def redis_get_def
        redis_setex_def pg_connect_def client_query_def client_release_def truthy_def
        sample_world_def Let_def)

theorem cache_failure_fails_fetch_witness:
  "fst (RedisCacheStrategy_getCustomerDashboard sample_runtime 7 new_RedisCacheStrategy
          (sample_world\<lparr>redis_setex_fails := Some (CacheError ''READONLY'' None)\<rparr>))
     = Inl (CacheError ''READONLY'' None)
   \<and> io_log (snd (snd (RedisCacheStrategy_getCustomerDashboard sample_runtime 7 new_RedisCacheStrategy
          (sample_world\<lparr>redis_get_fails := Some (CacheError ''connect ECONNREFUSED'' None)\<rparr>))))
     = [RedisGet ''dashboard:7'']"
  using cache_failure_fails_fetch
     [of "sample_world\<lparr>redis_setex_fails := Some (CacheError ''READONLY'' None)\<rparr>"
         "CacheError ''READONLY'' None" sample_runtime 7 new_RedisCacheStrategy]
    cache_failure_fails_fetch
     [of "sample_world\<lparr>redis_get_fails := Some (CacheError ''connect ECONNREFUSED'' None)\<rparr>"
         "CacheError ''connect ECONNREFUSED'' None" sample_runtime 7 new_RedisCacheStrategy]
  by (simp add: sample_world_def truthy_def cacheKey_of_def show_int_def show_nat.simps)

subsection \<open>The Hybrid strategy\<close>

lemma next_count_eq:
  "next_count this cid = (case accessCount this cid of None \<Rightarrow> 0 | Some c \<Rightarrow> c) + 1"
  by (simp add: next_count_def split: option.splits)

lemma hybrid_call_state:
  "fst (snd (HybridStrategy_getCustomerDashboard rt cid this w))
     = this\<lparr>accessCount := (accessCount this)(cid \<mapsto> next_count this cid)\<rparr>"
  by (simp add: HybridStrategy_getCustomerDashboard_def Let_def split: prod.splits)

lemma next_count_after_call:
  "next_count (fst (snd (HybridStrategy_getCustomerDashboard rt cid this w))) c
     = next_count this c + (if c = cid then 1 else 0)"
  by (simp add: hybrid_call_state next_count_eq)

lemma threshold_after_call:
  "hotDataThreshold (fst (snd (HybridStrategy_getCustomerDashboard rt cid this w)))
     = hotDataThreshold this"
  by (simp add: hybrid_call_state)

lemma hybrid_calls_next_count:
  "next_count (hybrid_calls rt this cs) c = next_count this c + int (count_list (map fst cs) c)"
proof (induction cs arbitrary: this)
  case Nil
  then show ?case by simp
next
  case (Cons call cs)
  obtain cid w where call: "call = (cid, w)" by (cases call)
  show ?case
    using Cons.IH [of "fst (snd (HybridStrategy_getCustomerDashboard rt cid this w))"]
    by (simp add: call next_count_after_call)
qed

lemma hybrid_calls_threshold:
  "hotDataThreshold (hybrid_calls rt this cs) = hotDataThreshold this"
proof (induction cs arbitrary: this)
  case Nil
  then show ?case by simp
next
  case (Cons call cs)
  obtain cid w where call: "call = (cid, w)" by (cases call)
  show ?case
    using Cons.IH [of "fst (snd (HybridStrategy_getCustomerDashboard rt cid this w))"]
    by (simp add: call threshold_after_call)
qed

lemma getFromPostgres_no_cache_io:
  "filter is_cache_io (io_log (snd (getFromPostgres cid w))) = filter is_cache_io (io_log w)
   \<and> cache (snd (getFromPostgres cid w)) = cache w"
  by (simp add: getFromPostgres_def pg_connect_def client_query_def client_release_def Let_def
      split: option.splits)

lemma getFromRedis_reads_cache_first:
  "\<exists>rest. io_log (snd (getFromRedis rt cid w)) = io_log w @ RedisGet (cacheKey_of cid) # rest"
  by (simp add: getFromRedis_def getFromPostgres_def redis_get_def redis_setex_def pg_connect_def
        client_query_def client_release_def Let_def
      split: option.splits)

text \<open>
  C7. After any earlier calls on a Hybrid strategy with hot-threshold \<open>T\<close>, let \<open>n\<close> be
  the number of the next call for a customer id among the calls for that id. If
  \<open>n < T\<close> the call is the direct-store path, with no cache operation; if \<open>n \<ge> T\<close> it
  is the cache-aside path, which starts with the cache read. The count compared is the
  one after the increment, so call number \<open>T\<close> already takes the cache path.
\<close>

theorem hybrid_threshold_routing:
  fixes T :: int and rt :: runtime and cs :: "(int \<times> world) list" and cid :: int
  defines "this \<equiv> hybrid_calls rt (new_HybridStrategy T) cs"
  defines "n \<equiv> int (count_list (map fst cs) cid) + 1"
  shows "(n < T \<longrightarrow>
            HybridStrategy_getCustomerDashboard rt cid this w
              = (fst (getFromPostgres cid w),
                 this\<lparr>accessCount := (accessCount this)(cid \<mapsto> n)\<rparr>,
                 snd (getFromPostgres cid w))
            \<and> filter is_cache_io
                 (io_log (snd (snd (HybridStrategy_getCustomerDashboard rt cid this w))))
                = filter is_cache_io (io_log w))
       \<and> (T \<le> n \<longrightarrow>
            HybridStrategy_getCustomerDashboard rt cid this w
              = (fst (getFromRedis rt cid w),
                 this\<lparr>accessCount := (accessCount this)(cid \<mapsto> n)\<rparr>,
                 snd (getFromRedis rt cid w))
            \<and> (\<exists>rest. io_log (snd (snd (HybridStrategy_getCustomerDashboard rt cid this w)))
                         = io_log w @ RedisGet (cacheKey_of cid) # rest))"
proof -
  have fresh: "next_count (new_HybridStrategy T) cid = 1"
    by (simp add: next_count_def new_HybridStrategy_def)
  have "next_count this cid
          = next_count (new_HybridStrategy T) cid + int (count_list (map fst cs) cid)"
    unfolding this_def by (rule hybrid_calls_next_count)
  then have cnt: "next_count this cid = n"
    using fresh by (simp add: n_def)
  have thr: "hotDataThreshold this = T"
    unfolding this_def by (simp add: hybrid_calls_threshold new_HybridStrategy_def)
  show ?thesis
    using cnt thr getFromPostgres_no_cache_io [of cid w] getFromRedis_reads_cache_first [of rt cid w]
    by (auto simp add: HybridStrategy_getCustomerDashboard_def Let_def split: prod.splits)
qed

theorem hybrid_threshold_routing_witness:
  "int (count_list (map fst [(7 :: int, sample_world), (9, sample_world), (7, sample_world)]) 9) + 1 < 3
   \<and> filter is_cache_io (io_log (snd (snd (HybridStrategy_getCustomerDashboard sample_runtime 9
       (hybrid_calls sample_runtime (new_HybridStrategy 3)
          [(7 :: int, sample_world), (9, sample_world), (7, sample_world)])
       sample_world)))) = filter is_cache_io (io_log sample_world)
   \<and> 3 \<le> int (count_list (map fst [(7 :: int, sample_world), (9, sample_world), (7, sample_world)]) 7) + 1
   \<and> (\<exists>rest. io_log (snd (snd (HybridStrategy_getCustomerDashboard sample_runtime 7
       (hybrid_calls sample_runtime (new_HybridStrategy 3)
          [(7 :: int, sample_world), (9, sample_world), (7, sample_world)])
       sample_world))) = io_log sample_world @ RedisGet (cacheKey_of 7) # rest)"
proof -
  have cold: "int (count_list (map fst [(7 :: int, sample_world), (9, sample_world), (7, sample_world)]) 9) + 1 < 3"
    by simp
  have hot: "3 \<le> int (count_list (map fst [(7 :: int, sample_world), (9, sample_world), (7, sample_world)]) 7) + 1"
    by simp
  show ?thesis
    using cold hot
      hybrid_threshold_routing
        [of "[(7 :: int, sample_world), (9, sample_world), (7, sample_world)]" 9 3 sample_runtime sample_world]
      hybrid_threshold_routing
        [of "[(7 :: int, sample_world), (9, sample_world), (7, sample_world)]" 7 3 sample_runtime sample_world]
    by blast
qed

subsection \<open>The circuit breaker\<close>

lemma attempt_inner_cases:
  "attempt_inner executor ft cid (b, s)
     = (fst (executor s cid),
        (if isl (fst (executor s cid)) then onFailure ft b else onSuccess b),
        snd (executor s cid))"
  by (simp add: attempt_inner_def split: prod.splits sum.splits)

lemma onSuccess_fields:
  "threshold (onSuccess b) = threshold b \<and> resetTimeout (onSuccess b) = resetTimeout b
   \<and> failureCount (onSuccess b) = 0 \<and> nextAttempt (onSuccess b) = nextAttempt b
   \<and> state (onSuccess b) = (if state b = HALF_OPEN then CLOSED else state b)"
  by (simp add: onSuccess_def Let_def)

lemma onFailure_fields:
  "threshold (onFailure ft b) = threshold b \<and> resetTimeout (onFailure ft b) = resetTimeout b
   \<and> failureCount (onFailure ft b) = failureCount b + 1
   \<and> state (onFailure ft b) = (if threshold b \<le> failureCount b + 1 then OPEN else state b)
   \<and> nextAttempt (onFailure ft b)
        = (if threshold b \<le> failureCount b + 1 then Some (ft + resetTimeout b) else nextAttempt b)"
  by (simp add: onFailure_def Let_def)

lemma breaker_call_invariant:
  assumes "state b \<noteq> HALF_OPEN"
    and "state b = OPEN \<longrightarrow> nextAttempt b \<noteq> None \<and> threshold b \<le> failureCount b"
  shows "state (fst (snd (CircuitBreakerDecorator_getCustomerDashboard executor ct ft cid (b, s))))
           \<noteq> HALF_OPEN
    \<and> (state (fst (snd (CircuitBreakerDecorator_getCustomerDashboard executor ct ft cid (b, s))))
           = OPEN \<longrightarrow>
         nextAttempt (fst (snd (CircuitBreakerDecorator_getCustomerDashboard executor ct ft cid (b, s))))
           \<noteq> None
         \<and> threshold (fst (snd (CircuitBreakerDecorator_getCustomerDashboard executor ct ft cid (b, s))))
           \<le> failureCount
                (fst (snd (CircuitBreakerDecorator_getCustomerDashboard executor ct ft cid (b, s)))))"
  using assms
  by (cases "state b")
     (auto simp: CircuitBreakerDecorator_getCustomerDashboard_def guard_def attempt_inner_cases
        onSuccess_fields onFailure_fields)

lemma breaker_calls_invariant:
  "state b \<noteq> HALF_OPEN \<Longrightarrow>
   (state b = OPEN \<longrightarrow> nextAttempt b \<noteq> None \<and> threshold b \<le> failureCount b) \<Longrightarrow>
   state (fst (breaker_calls executor calls (b, s))) \<noteq> HALF_OPEN
   \<and> (state (fst (breaker_calls executor calls (b, s))) = OPEN \<longrightarrow>
        nextAttempt (fst (breaker_calls executor calls (b, s))) \<noteq> None
        \<and> threshold (fst (breaker_calls executor calls (b, s)))
            \<le> failureCount (fst (breaker_calls executor calls (b, s))))"
proof (induction calls arbitrary: b s)
  case Nil
  then show ?case by simp
next
  case (Cons c calls)
  obtain ct ft cid where c: "c = (ct, ft, cid)" by (cases c)
  obtain res b1 s1 where step:
    "CircuitBreakerDecorator_getCustomerDashboard executor ct ft cid (b, s) = (res, b1, s1)"
    by (cases "CircuitBreakerDecorator_getCustomerDashboard executor ct ft cid (b, s)")
  have inv1: "state b1 \<noteq> HALF_OPEN
      \<and> (state b1 = OPEN \<longrightarrow> nextAttempt b1 \<noteq> None \<and> threshold b1 \<le> failureCount b1)"
    using breaker_call_invariant [OF Cons.prems, of executor ct ft cid s] step by simp
  show ?case
    using Cons.IH [of b1 s1] inv1 by (simp add: c step)
qed

lemma guard_fields:
  "guard t b = Inr b' \<Longrightarrow>
   threshold b' = threshold b \<and> resetTimeout b' = resetTimeout b
   \<and> failureCount b' = failureCount b \<and> nextAttempt b' = nextAttempt b
   \<and> state b' = (if state b = OPEN then HALF_OPEN else state b)"
  by (auto simp: guard_def split: if_splits)

lemma moment_step_set:
  assumes "moment_step m (b, p) = Some (b', p')"
  shows "(nextAttempt b \<noteq> None \<longrightarrow> nextAttempt b' \<noteq> None)
    \<and> ((state b \<noteq> CLOSED \<longrightarrow> nextAttempt b \<noteq> None)
         \<longrightarrow> (state b' \<noteq> CLOSED \<longrightarrow> nextAttempt b' \<noteq> None))"
proof (cases m)
  case (Arrives t)
  show ?thesis
  proof (cases "guard t b")
    case (Inl e)
    then show ?thesis using assms Arrives by simp
  next
    case (Inr b1)
    then show ?thesis
      using assms Arrives guard_fields [OF Inr] by (auto split: if_splits)
  qed
next
  case InnerResolves
  then show ?thesis
    using assms onSuccess_fields [of b] by (auto split: if_splits)
next
  case (InnerRejects t)
  then show ?thesis
    using assms onFailure_fields [of t b] by (auto split: if_splits)
qed

lemma moments_set:
  "moments ms (b, p) = Some (b', p') \<Longrightarrow>
   (nextAttempt b \<noteq> None \<longrightarrow> nextAttempt b' \<noteq> None)
   \<and> ((state b \<noteq> CLOSED \<longrightarrow> nextAttempt b \<noteq> None)
        \<longrightarrow> (state b' \<noteq> CLOSED \<longrightarrow> nextAttempt b' \<noteq> None))"
proof (induction ms arbitrary: b p)
  case Nil
  then show ?case by simp
next
  case (Cons m ms)
  from Cons.prems obtain b1 p1 where
    step: "moment_step m (b, p) = Some (b1, p1)" and rest: "moments ms (b1, p1) = Some (b', p')"
    by (auto split: option.splits)
  show ?case
    using moment_step_set [OF step] Cons.IH [OF rest] by blast
qed

lemma call_is_moments:
  "\<exists>ms. moments ms (b, 0)
     = Some (fst (snd (CircuitBreakerDecorator_getCustomerDashboard executor ct ft cid (b, s))), 0)"
proof (cases "guard ct b")
  case (Inl e)
  then have "moments [Arrives ct] (b, 0)
     = Some (fst (snd (CircuitBreakerDecorator_getCustomerDashboard executor ct ft cid (b, s))), 0)"
    by (simp add: CircuitBreakerDecorator_getCustomerDashboard_def)
  then show ?thesis by blast
next
  case (Inr b1)
  show ?thesis
  proof (cases "isl (fst (executor s cid))")
    case True
    then have "moments [Arrives ct, InnerRejects ft] (b, 0)
       = Some (fst (snd (CircuitBreakerDecorator_getCustomerDashboard executor ct ft cid (b, s))), 0)"
      using Inr by (simp add: CircuitBreakerDecorator_getCustomerDashboard_def attempt_inner_cases)
    then show ?thesis by blast
  next
    case False
    then have "moments [Arrives ct, InnerResolves] (b, 0)
       = Some (fst (snd (CircuitBreakerDecorator_getCustomerDashboard executor ct ft cid (b, s))), 0)"
      using Inr by (simp add: CircuitBreakerDecorator_getCustomerDashboard_def attempt_inner_cases)
    then show ?thesis by blast
  qed
qed

lemma moments_append:
  "moments (xs @ ys) bp = (case moments xs bp of None \<Rightarrow> None | Some bp' \<Rightarrow> moments ys bp')"
  by (induction xs arbitrary: bp) (auto split: option.splits)

lemma breaker_calls_are_moments:
  "\<exists>ms. moments ms (b, 0) = Some (fst (breaker_calls executor calls (b, s)), 0)"
proof (induction calls arbitrary: b s)
  case Nil
  have "moments [] (b, 0) = Some (fst (breaker_calls executor [] (b, s)), 0)" by simp
  then show ?case by blast
next
  case (Cons c calls)
  obtain ct ft cid where c: "c = (ct, ft, cid)" by (cases c)
  obtain res b1 s1 where step:
    "CircuitBreakerDecorator_getCustomerDashboard executor ct ft cid (b, s) = (res, b1, s1)"
    by (cases "CircuitBreakerDecorator_getCustomerDashboard executor ct ft cid (b, s)")
  from call_is_moments [of b executor ct ft cid s] obtain ms1 where
    ms1: "moments ms1 (b, 0) = Some (b1, 0)"
    using step by auto
  from Cons.IH [of b1 s1] obtain ms2 where
    ms2: "moments ms2 (b1, 0) = Some (fst (breaker_calls executor calls (b1, s1)), 0)"
    by blast
  have "moments (ms1 @ ms2) (b, 0) = Some (fst (breaker_calls executor (c # calls) (b, s)), 0)"
    using ms1 ms2 by (simp add: moments_append c step)
  then show ?case by blast
qed

text \<open>
  C4 (as the code has it). In every state that a circuit breaker reaches through calls,
  overlapping or not, the \<open>nextAttempt\<close> field is set whenever the state is Open, and
  also whenever it is HalfOpen; it is unset only in Closed. The converse does not hold,
  because no step ever clears the field: the guard and \<open>_onSuccess\<close> leave it as it
  is, and \<open>_onFailure\<close> either leaves it or overwrites it with a new instant. Once set
  it stays set, in Closed as well.
\<close>

theorem open_has_nextAttempt:
  "(moments ms (new_CircuitBreakerDecorator thr rst, 0) = Some (b, p) \<longrightarrow>
      (state b = OPEN \<or> state b = HALF_OPEN \<longrightarrow> nextAttempt b \<noteq> None)
      \<and> (nextAttempt b = None \<longrightarrow> state b = CLOSED))
   \<and> (guard t this = Inr this1 \<longrightarrow> nextAttempt this1 = nextAttempt this)
   \<and> nextAttempt (onSuccess this) = nextAttempt this
   \<and> nextAttempt (onFailure t this)
       = (if threshold this \<le> failureCount this + 1 then Some (t + resetTimeout this)
          else nextAttempt this)
   \<and> (moments ms' (this, p0) = Some (b', p') \<and> nextAttempt this \<noteq> None
        \<longrightarrow> nextAttempt b' \<noteq> None)"
proof -
  have reach: "moments ms (new_CircuitBreakerDecorator thr rst, 0) = Some (b, p) \<longrightarrow>
      (state b = OPEN \<or> state b = HALF_OPEN \<longrightarrow> nextAttempt b \<noteq> None)
      \<and> (nextAttempt b = None \<longrightarrow> state b = CLOSED)"
  proof
    assume r: "moments ms (new_CircuitBreakerDecorator thr rst, 0) = Some (b, p)"
    have "state b \<noteq> CLOSED \<longrightarrow> nextAttempt b \<noteq> None"
      using moments_set [OF r] by (simp add: new_CircuitBreakerDecorator_def)
    then show "(state b = OPEN \<or> state b = HALF_OPEN \<longrightarrow> nextAttempt b \<noteq> None)
      \<and> (nextAttempt b = None \<longrightarrow> state b = CLOSED)"
      by (cases "state b") auto
  qed
  have g: "guard t this = Inr this1 \<longrightarrow> nextAttempt this1 = nextAttempt this"
    using guard_fields [of t this this1] by simp
  have keep: "moments ms' (this, p0) = Some (b', p') \<and> nextAttempt this \<noteq> None
        \<longrightarrow> nextAttempt b' \<noteq> None"
    using moments_set [of ms' this p0 b' p'] by blast
  show ?thesis
    using reach g keep onSuccess_fields [of this] onFailure_fields [of t this]
    by simp
qed

theorem open_has_nextAttempt_witness:
  "moments [Arrives 0, InnerRejects 0] (new_CircuitBreakerDecorator 1 10, 0)
     = Some (\<lparr>threshold = 1, resetTimeout = 10, failureCount = 1, state = OPEN,
              nextAttempt = Some 10\<rparr>, 0)
   \<and> nextAttempt \<lparr>threshold = 1, resetTimeout = 10, failureCount = 1, state = OPEN,
              nextAttempt = Some 10\<rparr> \<noteq> None
   \<and> nextAttempt (onSuccess \<lparr>threshold = 1, resetTimeout = 10, failureCount = 1,
              state = HALF_OPEN, nextAttempt = Some 10\<rparr>) = Some 10"
proof -
  have run: "moments [Arrives 0, InnerRejects 0] (new_CircuitBreakerDecorator 1 10, 0)
     = Some (\<lparr>threshold = 1, resetTimeout = 10, failureCount = 1, state = OPEN,
              nextAttempt = Some 10\<rparr>, 0)"
    by (simp add: new_CircuitBreakerDecorator_def guard_def onFailure_def Let_def)
  show ?thesis
    using run open_has_nextAttempt
      [where ms = "[Arrives 0, InnerRejects 0]" and thr = 1 and rst = 10
         and b = "\<lparr>threshold = 1, resetTimeout = 10, failureCount = 1, state = OPEN,
                    nextAttempt = Some 10\<rparr>" and p = 0
         and this = "\<lparr>threshold = 1, resetTimeout = 10, failureCount = 1,
                       state = HALF_OPEN, nextAttempt = Some 10\<rparr>"
         and t = 0 and ?this1.0 = "\<lparr>threshold = 1, resetTimeout = 10, failureCount = 1,
                       state = HALF_OPEN, nextAttempt = Some 10\<rparr>"
         and ms' = "[]" and ?p0.0 = 0 and b' = "\<lparr>threshold = 1, resetTimeout = 10, failureCount = 1,
                       state = HALF_OPEN, nextAttempt = Some 10\<rparr>" and p' = 0]
    by simp
qed

text \<open>
  C4 as stated fails: once the breaker has opened and a later trial call has succeeded,
  the state is Closed and \<open>nextAttempt\<close> still holds the old instant.
\<close>

theorem closed_keeps_nextAttempt_counterexample:
  "moments [Arrives 0, InnerRejects 0, Arrives 20, InnerResolves]
     (new_CircuitBreakerDecorator 1 10, 0)
     = Some (\<lparr>threshold = 1, resetTimeout = 10, failureCount = 0, state = CLOSED,
              nextAttempt = Some 10\<rparr>, 0)"
  by (simp add: new_CircuitBreakerDecorator_def guard_def onFailure_def onSuccess_def
        before_nextAttempt_def Let_def)

text \<open>
  C5 (as the code has it). As long as calls are made one after the other, none
  overlapping another, the circuit breaker is the specified state machine. In Closed the call reaches the inner layer; a success sets
  the failure count to 0, a failure increments it, and a failure that brings it to the
  threshold opens the circuit with \<open>nextAttempt = now + resetTimeout\<close>. In Open a call
  strictly before \<open>nextAttempt\<close> fails with the circuit-open error and the inner layer
  receives no call; a call at or after \<open>nextAttempt\<close> moves to HalfOpen and goes on as
  the trial. In HalfOpen a successful trial closes the circuit with the count at 0, and
  a failed trial increments the count and reopens the circuit with a fresh
  \<open>nextAttempt\<close> when the count is then at or above the threshold. That is always
  so while no calls have overlapped: in every Open state reached by calls made one
  after the other since construction the count is at or above the threshold, so there
  a successful trial closes the circuit and a failed one reopens it.
\<close>

theorem circuit_breaker_state_machine:
  fixes this :: CircuitBreakerDecorator and script :: "nat \<Rightarrow> error + 'a"
    and executor :: "('s, 'b) executor"
  shows
    "(state this = CLOSED \<and> script n = Inr result \<longrightarrow>
        CircuitBreakerDecorator_getCustomerDashboard (scripted script) callTime failTime cid (this, n)
          = (Inr result, this\<lparr>failureCount := 0\<rparr>, Suc n))
     \<and> (state this = CLOSED \<and> script n = Inl e \<and> failureCount this + 1 < threshold this \<longrightarrow>
        CircuitBreakerDecorator_getCustomerDashboard (scripted script) callTime failTime cid (this, n)
          = (Inl e, this\<lparr>failureCount := failureCount this + 1\<rparr>, Suc n))
     \<and> (state this = CLOSED \<and> script n = Inl e \<and> threshold this \<le> failureCount this + 1 \<longrightarrow>
        CircuitBreakerDecorator_getCustomerDashboard (scripted script) callTime failTime cid (this, n)
          = (Inl e,
             this\<lparr>failureCount := failureCount this + 1, state := OPEN,
                  nextAttempt := Some (failTime + resetTimeout this)\<rparr>,
             Suc n))
     \<and> (state this = OPEN \<and> nextAttempt this = Some openUntil \<and> callTime < openUntil \<longrightarrow>
        CircuitBreakerDecorator_getCustomerDashboard (scripted script) callTime failTime cid (this, n)
          = (Inl circuit_open_error, this, n))
     \<and> (state this = OPEN \<and> nextAttempt this = Some openUntil \<and> openUntil \<le> callTime \<longrightarrow>
        guard callTime this = Inr (this\<lparr>state := HALF_OPEN\<rparr>)
        \<and> CircuitBreakerDecorator_getCustomerDashboard (scripted script) callTime failTime cid (this, n)
          = attempt_inner (scripted script) failTime cid (this\<lparr>state := HALF_OPEN\<rparr>, n))
     \<and> (state this = HALF_OPEN \<and> script n = Inr result \<longrightarrow>
        attempt_inner (scripted script) failTime cid (this, n)
          = (Inr result, this\<lparr>failureCount := 0, state := CLOSED\<rparr>, Suc n))
     \<and> (state this = HALF_OPEN \<and> script n = Inl e \<and> threshold this \<le> failureCount this + 1 \<longrightarrow>
        attempt_inner (scripted script) failTime cid (this, n)
          = (Inl e,
             this\<lparr>failureCount := failureCount this + 1, state := OPEN,
                  nextAttempt := Some (failTime + resetTimeout this)\<rparr>,
             Suc n))
     \<and> (state (fst (breaker_calls executor calls (new_CircuitBreakerDecorator thr rst, s))) = OPEN
          \<longrightarrow>
          (\<exists>t. nextAttempt (fst (breaker_calls executor calls (new_CircuitBreakerDecorator thr rst, s)))
                 = Some t)
          \<and> threshold (fst (breaker_calls executor calls (new_CircuitBreakerDecorator thr rst, s)))
              \<le> failureCount
                   (fst (breaker_calls executor calls (new_CircuitBreakerDecorator thr rst, s))))
     \<and> (state (fst (breaker_calls executor calls (new_CircuitBreakerDecorator thr rst, s))) = OPEN
          \<and> nextAttempt (fst (breaker_calls executor calls (new_CircuitBreakerDecorator thr rst, s))) = Some openUntil
          \<and> openUntil \<le> callTime \<and> script n = Inr result \<longrightarrow>
        CircuitBreakerDecorator_getCustomerDashboard (scripted script) callTime failTime cid
          ((fst (breaker_calls executor calls (new_CircuitBreakerDecorator thr rst, s))), n)
          = (Inr result,
             (fst (breaker_calls executor calls (new_CircuitBreakerDecorator thr rst, s)))
               \<lparr>failureCount := 0, state := CLOSED\<rparr>,
             Suc n))
     \<and> (state (fst (breaker_calls executor calls (new_CircuitBreakerDecorator thr rst, s))) = OPEN
          \<and> nextAttempt (fst (breaker_calls executor calls (new_CircuitBreakerDecorator thr rst, s))) = Some openUntil
          \<and> openUntil \<le> callTime \<and> script n = Inl e \<longrightarrow>
        CircuitBreakerDecorator_getCustomerDashboard (scripted script) callTime failTime cid
          ((fst (breaker_calls executor calls (new_CircuitBreakerDecorator thr rst, s))), n)
          = (Inl e,
             (fst (breaker_calls executor calls (new_CircuitBreakerDecorator thr rst, s)))
               \<lparr>failureCount := failureCount (fst (breaker_calls executor calls (new_CircuitBreakerDecorator thr rst, s))) + 1,
                state := OPEN,
                nextAttempt := Some (failTime + resetTimeout (fst (breaker_calls executor calls (new_CircuitBreakerDecorator thr rst, s))))\<rparr>,
             Suc n))"
proof -
  let ?call = "CircuitBreakerDecorator_getCustomerDashboard (scripted script) callTime failTime cid
                 (this, n)"
  have closed_ok: "state this = CLOSED \<and> script n = Inr result \<longrightarrow>
      ?call = (Inr result, this\<lparr>failureCount := 0\<rparr>, Suc n)"
    by (simp add: CircuitBreakerDecorator_getCustomerDashboard_def guard_def attempt_inner_def
          scripted_def onSuccess_def Let_def)
  have closed_fail: "state this = CLOSED \<and> script n = Inl e \<and> failureCount this + 1 < threshold this
      \<longrightarrow> ?call = (Inl e, this\<lparr>failureCount := failureCount this + 1\<rparr>, Suc n)"
    by (simp add: CircuitBreakerDecorator_getCustomerDashboard_def guard_def attempt_inner_def
          scripted_def onFailure_def Let_def)
  have closed_trip: "state this = CLOSED \<and> script n = Inl e \<and> threshold this \<le> failureCount this + 1
      \<longrightarrow> ?call = (Inl e,
             this\<lparr>failureCount := failureCount this + 1, state := OPEN,
                  nextAttempt := Some (failTime + resetTimeout this)\<rparr>,
             Suc n)"
    by (simp add: CircuitBreakerDecorator_getCustomerDashboard_def guard_def attempt_inner_def
          scripted_def onFailure_def Let_def)
  have open_reject: "state this = OPEN \<and> nextAttempt this = Some openUntil \<and> callTime < openUntil
      \<longrightarrow> ?call = (Inl circuit_open_error, this, n)"
    by (simp add: CircuitBreakerDecorator_getCustomerDashboard_def guard_def before_nextAttempt_def)
  have open_trial: "state this = OPEN \<and> nextAttempt this = Some openUntil \<and> openUntil \<le> callTime
      \<longrightarrow> guard callTime this = Inr (this\<lparr>state := HALF_OPEN\<rparr>)
        \<and> ?call = attempt_inner (scripted script) failTime cid (this\<lparr>state := HALF_OPEN\<rparr>, n)"
    by (simp add: CircuitBreakerDecorator_getCustomerDashboard_def guard_def before_nextAttempt_def)
  have half_ok: "state this = HALF_OPEN \<and> script n = Inr result \<longrightarrow>
      attempt_inner (scripted script) failTime cid (this, n)
        = (Inr result, this\<lparr>failureCount := 0, state := CLOSED\<rparr>, Suc n)"
    by (simp add: attempt_inner_def scripted_def onSuccess_def Let_def)
  have half_fail: "state this = HALF_OPEN \<and> script n = Inl e \<and> threshold this \<le> failureCount this + 1
      \<longrightarrow> attempt_inner (scripted script) failTime cid (this, n)
        = (Inl e,
           this\<lparr>failureCount := failureCount this + 1, state := OPEN,
                nextAttempt := Some (failTime + resetTimeout this)\<rparr>,
           Suc n)"
    by (simp add: attempt_inner_def scripted_def onFailure_def Let_def)
  let ?b = "fst (breaker_calls executor calls (new_CircuitBreakerDecorator thr rst, s))"
  have "state ?b \<noteq> HALF_OPEN
      \<and> (state ?b = OPEN \<longrightarrow> nextAttempt ?b \<noteq> None \<and> threshold ?b \<le> failureCount ?b)"
    by (rule breaker_calls_invariant) (simp_all add: new_CircuitBreakerDecorator_def)
  then have reach: "state ?b = OPEN \<longrightarrow>
      (\<exists>t. nextAttempt ?b = Some t) \<and> threshold ?b \<le> failureCount ?b"
    by auto
  have trial_ok: "state ?b = OPEN \<and> nextAttempt ?b = Some openUntil \<and> openUntil \<le> callTime
      \<and> script n = Inr result \<longrightarrow>
      CircuitBreakerDecorator_getCustomerDashboard (scripted script) callTime failTime cid (?b, n)
        = (Inr result, ?b\<lparr>failureCount := 0, state := CLOSED\<rparr>, Suc n)"
    by (simp add: CircuitBreakerDecorator_getCustomerDashboard_def guard_def attempt_inner_def
          scripted_def onSuccess_def before_nextAttempt_def Let_def)
  have trial_fail: "state ?b = OPEN \<and> nextAttempt ?b = Some openUntil \<and> openUntil \<le> callTime
      \<and> script n = Inl e \<longrightarrow>
      CircuitBreakerDecorator_getCustomerDashboard (scripted script) callTime failTime cid (?b, n)
        = (Inl e,
           ?b\<lparr>failureCount := failureCount ?b + 1, state := OPEN,
              nextAttempt := Some (failTime + resetTimeout ?b)\<rparr>,
           Suc n)"
    using reach
    by (auto simp add: CircuitBreakerDecorator_getCustomerDashboard_def guard_def attempt_inner_def
          scripted_def onFailure_def before_nextAttempt_def Let_def)
  show ?thesis
    using closed_ok closed_fail closed_trip open_reject open_trial half_ok half_fail reach
      trial_ok trial_fail
    by blast
qed

theorem circuit_breaker_state_machine_witness:
  "CircuitBreakerDecorator_getCustomerDashboard (scripted (fails_then_returns 2 (TimeoutError ''slow'') ())) 4 5 7
     (\<lparr>threshold = 2, resetTimeout = 100, failureCount = 1, state = CLOSED, nextAttempt = None\<rparr>, 1)
     = (Inl (TimeoutError ''slow''), \<lparr>threshold = 2, resetTimeout = 100, failureCount = 2, state = OPEN, nextAttempt = Some 105\<rparr>, 2)
   \<and> CircuitBreakerDecorator_getCustomerDashboard (scripted (fails_then_returns 2 (TimeoutError ''slow'') ())) 50 50 7 (\<lparr>threshold = 2, resetTimeout = 100, failureCount = 2, state = OPEN, nextAttempt = Some 105\<rparr>, 2)
     = (Inl circuit_open_error, \<lparr>threshold = 2, resetTimeout = 100, failureCount = 2, state = OPEN, nextAttempt = Some 105\<rparr>, 2)
   \<and> CircuitBreakerDecorator_getCustomerDashboard (scripted (fails_then_returns 2 (TimeoutError ''slow'') ())) 200 200 7 (\<lparr>threshold = 2, resetTimeout = 100, failureCount = 2, state = OPEN, nextAttempt = Some 105\<rparr>, 2)
     = (Inr (),
        \<lparr>threshold = 2, resetTimeout = 100, failureCount = 0, state = CLOSED,
         nextAttempt = Some 105\<rparr>, 3)
   \<and> fst (breaker_calls (scripted (fails_then_returns 10 (TimeoutError ''slow'') ())) [(0, 0, 7), (4, 5, 7)]
          (new_CircuitBreakerDecorator 2 100, 0)) = \<lparr>threshold = 2, resetTimeout = 100, failureCount = 2, state = OPEN, nextAttempt = Some 105\<rparr>
   \<and> CircuitBreakerDecorator_getCustomerDashboard (scripted (fails_then_returns 10 (TimeoutError ''slow'') ())) 200 201 7 (\<lparr>threshold = 2, resetTimeout = 100, failureCount = 2, state = OPEN, nextAttempt = Some 105\<rparr>, 2)
     = (Inl (TimeoutError ''slow''),
        \<lparr>threshold = 2, resetTimeout = 100, failureCount = 3, state = OPEN,
         nextAttempt = Some 301\<rparr>, 3)"
proof -
  have tripped: "fst (breaker_calls (scripted (fails_then_returns 10 (TimeoutError ''slow'') ())) [(0, 0, 7), (4, 5, 7)]
          (new_CircuitBreakerDecorator 2 100, 0)) = \<lparr>threshold = 2, resetTimeout = 100, failureCount = 2, state = OPEN, nextAttempt = Some 105\<rparr>"
    by (simp add: CircuitBreakerDecorator_getCustomerDashboard_def guard_def attempt_inner_def
          scripted_def fails_then_returns_def new_CircuitBreakerDecorator_def onFailure_def Let_def)
  show ?thesis
  using tripped
    circuit_breaker_state_machine
      [where this = "\<lparr>threshold = 2, resetTimeout = 100, failureCount = 1, state = CLOSED,
                       nextAttempt = None\<rparr>"
         and script = "fails_then_returns 2 (TimeoutError ''slow'') ()" and n = 1 and result = "()"
         and e = "TimeoutError ''slow''" and callTime = 4 and failTime = 5 and cid = 7
         and openUntil = 105
         and executor = "scripted (fails_then_returns 10 (TimeoutError ''slow'') ())"
         and calls = "[(0, 0, 7), (4, 5, 7)]" and thr = 2 and rst = 100 and s = 0]
    circuit_breaker_state_machine
      [where this = "\<lparr>threshold = 2, resetTimeout = 100, failureCount = 2, state = OPEN, nextAttempt = Some 105\<rparr>"
         and script = "fails_then_returns 2 (TimeoutError ''slow'') ()" and n = 2 and result = "()" and e = "TimeoutError ''slow''"
         and openUntil = 105 and callTime = 50 and failTime = 50 and cid = 7
         and executor = "scripted (fails_then_returns 10 (TimeoutError ''slow'') ())"
         and calls = "[(0, 0, 7), (4, 5, 7)]" and thr = 2 and rst = 100 and s = 0]
    circuit_breaker_state_machine
      [where this = "\<lparr>threshold = 2, resetTimeout = 100, failureCount = 2, state = OPEN, nextAttempt = Some 105\<rparr>"
         and script = "fails_then_returns 2 (TimeoutError ''slow'') ()" and n = 2 and result = "()" and e = "TimeoutError ''slow''"
         and openUntil = 105 and callTime = 200 and failTime = 200 and cid = 7
         and executor = "scripted (fails_then_returns 10 (TimeoutError ''slow'') ())"
         and calls = "[(0, 0, 7), (4, 5, 7)]" and thr = 2 and rst = 100 and s = 0]
    circuit_breaker_state_machine
      [where this = "\<lparr>threshold = 2, resetTimeout = 100, failureCount = 2, state = OPEN, nextAttempt = Some 105\<rparr>\<lparr>state := HALF_OPEN\<rparr>"
         and script = "fails_then_returns 2 (TimeoutError ''slow'') ()" and n = 2 and e = "TimeoutError ''slow''"
         and result = "()" and failTime = 200 and callTime = 200 and openUntil = 105
         and cid = 7
         and executor = "scripted (fails_then_returns 10 (TimeoutError ''slow'') ())"
         and calls = "[(0, 0, 7), (4, 5, 7)]" and thr = 2 and rst = 100 and s = 0]
    circuit_breaker_state_machine
      [where this = "\<lparr>threshold = 2, resetTimeout = 100, failureCount = 2, state = OPEN, nextAttempt = Some 105\<rparr>"
         and script = "fails_then_returns 10 (TimeoutError ''slow'') ()" and n = 2 and e = "TimeoutError ''slow''"
         and result = "()" and failTime = 201 and callTime = 200 and openUntil = 105
         and cid = 7
         and executor = "scripted (fails_then_returns 10 (TimeoutError ''slow'') ())"
         and calls = "[(0, 0, 7), (4, 5, 7)]" and thr = 2 and rst = 100 and s = 0]
    circuit_breaker_state_machine
      [where this = "\<lparr>threshold = 2, resetTimeout = 100, failureCount = 2, state = OPEN, nextAttempt = Some 105\<rparr>\<lparr>state := HALF_OPEN\<rparr>"
         and script = "fails_then_returns 10 (TimeoutError ''slow'') ()" and n = 2 and e = "TimeoutError ''slow''"
         and result = "()" and failTime = 201 and callTime = 200 and openUntil = 105
         and cid = 7
         and executor = "scripted (fails_then_returns 10 (TimeoutError ''slow'') ())"
         and calls = "[(0, 0, 7), (4, 5, 7)]" and thr = 2 and rst = 100 and s = 0]
  by (simp add: fails_then_returns_def new_CircuitBreakerDecorator_def)
qed

text \<open>
  C5 as stated fails when calls overlap. Threshold 2: two failures open the circuit; two
  calls arrive past \<open>nextAttempt\<close> while the first of them is still in flight; the
  first fails and reopens the circuit, the second succeeds and sets the count to 0. The
  next trial, alone, fails with the count at 1: the state stays HalfOpen.
\<close>

theorem failed_trial_stays_half_open_counterexample:
  "moments [Arrives 0, InnerRejects 1, Arrives 2, InnerRejects 3,
            Arrives 200, Arrives 200, InnerRejects 201, InnerResolves, Arrives 400]
     (new_CircuitBreakerDecorator 2 100, 0)
     = Some (\<lparr>threshold = 2, resetTimeout = 100, failureCount = 0, state = HALF_OPEN,
              nextAttempt = Some 301\<rparr>, 1)
   \<and> moments [Arrives 0, InnerRejects 1, Arrives 2, InnerRejects 3,
            Arrives 200, Arrives 200, InnerRejects 201, InnerResolves, Arrives 400,
            InnerRejects 401]
     (new_CircuitBreakerDecorator 2 100, 0)
     = Some (\<lparr>threshold = 2, resetTimeout = 100, failureCount = 1, state = HALF_OPEN,
              nextAttempt = Some 301\<rparr>, 0)"
  by (simp add: new_CircuitBreakerDecorator_def guard_def onFailure_def onSuccess_def
        before_nextAttempt_def Let_def)

subsection \<open>The Retry decorator\<close>

lemma retry_loop_returns:
  "0 \<le> a \<Longrightarrow> a + int k \<le> maxRetries this \<Longrightarrow>
   (\<forall>i<k. \<exists>e. script (n + i) = Inl e \<and> name e \<noteq> ''ValidationError'') \<Longrightarrow>
   script (n + k) = Inr result \<Longrightarrow>
   fst (retry_loop (scripted script) this cid a lastError n slept) = Inr result
   \<and> fst (snd (retry_loop (scripted script) this cid a lastError n slept)) = n + k + 1"
proof (induction k arbitrary: a lastError n slept)
  case 0
  then have "retry_loop (scripted script) this cid a lastError n slept = (Inr result, Suc n, slept)"
    by (subst retry_loop.simps) (simp add: scripted_def)
  then show ?case by simp
next
  case (Suc k)
  from Suc.prems(3) obtain e where e: "script n = Inl e" "name e \<noteq> ''ValidationError''"
    by force
  have later: "\<forall>i<k. \<exists>e. script (Suc n + i) = Inl e \<and> name e \<noteq> ''ValidationError''"
    using Suc.prems(3) by (metis Suc_less_eq add_Suc_shift)
  have res: "script (Suc n + k) = Inr result"
    using Suc.prems(4) by simp
  have bounds: "0 \<le> a + 1" "a + 1 + int k \<le> maxRetries this" "a < maxRetries this"
    using Suc.prems(1,2) by simp_all
  have step: "retry_loop (scripted script) this cid a lastError n slept
      = retry_loop (scripted script) this cid (a + 1) (Some e) (Suc n)
          (slept @ [initialDelay this * 2 ^ nat a])"
    using e bounds(3) by (subst retry_loop.simps) (simp add: scripted_def Let_def)
  show ?case
    using Suc.IH [OF bounds(1) bounds(2) later res, of "Some e" "slept @ [initialDelay this * 2 ^ nat a]"]
    by (simp add: step)
qed

lemma retry_loop_exhausts:
  "d = nat (maxRetries this - a) \<Longrightarrow> 0 \<le> a \<Longrightarrow> a \<le> maxRetries this \<Longrightarrow>
   (\<forall>i\<le>d. \<exists>e. script (n + i) = Inl e \<and> name e \<noteq> ''ValidationError'') \<Longrightarrow>
   script (n + d) = Inl final \<Longrightarrow>
   fst (retry_loop (scripted script) this cid a lastError n slept)
     = Inl (exhausted this (Some final))
   \<and> fst (snd (retry_loop (scripted script) this cid a lastError n slept)) = n + d + 1"
proof (induction d arbitrary: a lastError n slept)
  case 0
  then have a: "a = maxRetries this" by simp
  from "0.prems"(4) have nv: "name final \<noteq> ''ValidationError''"
    using "0.prems"(5) by auto
  have "retry_loop (scripted script) this cid a lastError n slept
          = (Inl (exhausted this (Some final)), Suc n, slept)"
    using "0.prems"(5) nv a by (subst retry_loop.simps) (simp add: scripted_def)
  then show ?case by simp
next
  case (Suc d)
  from Suc.prems(4) obtain e where e: "script n = Inl e" "name e \<noteq> ''ValidationError''"
    by force
  have later: "\<forall>i\<le>d. \<exists>e. script (Suc n + i) = Inl e \<and> name e \<noteq> ''ValidationError''"
    using Suc.prems(4) by (metis Suc_le_mono add_Suc_shift)
  have lst: "script (Suc n + d) = Inl final"
    using Suc.prems(5) by simp
  have bounds: "d = nat (maxRetries this - (a + 1))" "0 \<le> a + 1" "a + 1 \<le> maxRetries this"
      "a < maxRetries this"
    using Suc.prems(1,2,3) by linarith+
  have step: "retry_loop (scripted script) this cid a lastError n slept
      = retry_loop (scripted script) this cid (a + 1) (Some e) (Suc n)
          (slept @ [initialDelay this * 2 ^ nat a])"
    using e bounds(4) by (subst retry_loop.simps) (simp add: scripted_def Let_def)
  show ?case
    using Suc.IH [OF bounds(1) bounds(2) bounds(3) later lst, of "Some e"
        "slept @ [initialDelay this * 2 ^ nat a]"]
    by (simp add: step)
qed

lemma retry_loop_validation:
  "a \<le> maxRetries this \<Longrightarrow> script n = Inl e \<Longrightarrow> name e = ''ValidationError'' \<Longrightarrow>
   retry_loop (scripted script) this cid a lastError n slept = (Inl e, Suc n, slept)"
  by (subst retry_loop.simps) (simp add: scripted_def)

text \<open>
  C6. For the Retry decorator with \<open>maxRetries\<close>: if the inner strategy fails \<open>k\<close>
  times (with errors other than \<open>ValidationError\<close>, \<open>k\<close> at most \<open>maxRetries\<close>) and
  then succeeds, the decorator returns that success after exactly \<open>k + 1\<close> inner
  calls; if it fails \<open>maxRetries + 1\<close> times, the decorator throws a \<open>QueryError\<close>
  wrapping the last of these errors after exactly \<open>maxRetries + 1\<close> inner calls; and if
  the first inner call throws a \<open>ValidationError\<close>, the decorator rethrows it after that
  one inner call, without sleeping. The inner strategy is a script started at call
  \<open>n\<close>, so the state returned counts the inner calls.
\<close>

theorem retry_decorator_attempts:
  "(int k \<le> maxRetries this
      \<and> (\<forall>i<k. \<exists>e. script (n + i) = Inl e \<and> name e \<noteq> ''ValidationError'')
      \<and> script (n + k) = Inr result \<longrightarrow>
      fst (RetryDecorator_getCustomerDashboard (scripted script) this cid n) = Inr result
      \<and> fst (snd (RetryDecorator_getCustomerDashboard (scripted script) this cid n)) = n + (k + 1))
   \<and> (0 \<le> maxRetries this
      \<and> (\<forall>i\<le>nat (maxRetries this). \<exists>e. script (n + i) = Inl e \<and> name e \<noteq> ''ValidationError'')
      \<and> script (n + nat (maxRetries this)) = Inl final \<longrightarrow>
      fst (RetryDecorator_getCustomerDashboard (scripted script) this cid n)
        = Inl (QueryError (''Failed after '' @ show_int (maxRetries this + 1) @ '' attempts'')
                 (Some final))
      \<and> fst (snd (RetryDecorator_getCustomerDashboard (scripted script) this cid n))
        = n + (nat (maxRetries this) + 1))
   \<and> (0 \<le> maxRetries this \<and> script n = Inl e \<and> name e = ''ValidationError'' \<longrightarrow>
      RetryDecorator_getCustomerDashboard (scripted script) this cid n = (Inl e, n + 1, []))"
proof -
  have returns: "int k \<le> maxRetries this
      \<and> (\<forall>i<k. \<exists>e. script (n + i) = Inl e \<and> name e \<noteq> ''ValidationError'')
      \<and> script (n + k) = Inr result \<longrightarrow>
      fst (RetryDecorator_getCustomerDashboard (scripted script) this cid n) = Inr result
      \<and> fst (snd (RetryDecorator_getCustomerDashboard (scripted script) this cid n)) = n + (k + 1)"
    using retry_loop_returns [of 0 k this script n result cid None "[]"]
    by (simp add: RetryDecorator_getCustomerDashboard_def)
  have exhausts: "0 \<le> maxRetries this
      \<and> (\<forall>i\<le>nat (maxRetries this). \<exists>e. script (n + i) = Inl e \<and> name e \<noteq> ''ValidationError'')
      \<and> script (n + nat (maxRetries this)) = Inl final \<longrightarrow>
      fst (RetryDecorator_getCustomerDashboard (scripted script) this cid n)
        = Inl (QueryError (''Failed after '' @ show_int (maxRetries this + 1) @ '' attempts'')
                 (Some final))
      \<and> fst (snd (RetryDecorator_getCustomerDashboard (scripted script) this cid n))
        = n + (nat (maxRetries this) + 1)"
    using retry_loop_exhausts [of "nat (maxRetries this)" this 0 script n final cid None "[]"]
    by (simp add: RetryDecorator_getCustomerDashboard_def exhausted_def)
  have validation: "0 \<le> maxRetries this \<and> script n = Inl e \<and> name e = ''ValidationError'' \<longrightarrow>
      RetryDecorator_getCustomerDashboard (scripted script) this cid n = (Inl e, n + 1, [])"
    using retry_loop_validation [of 0 this script n e cid None "[]"]
    by (simp add: RetryDecorator_getCustomerDashboard_def)
  show ?thesis
    using returns exhausts validation by blast
qed


theorem retry_decorator_attempts_witness:
  "fst (RetryDecorator_getCustomerDashboard (scripted (fails_then_returns 2 (TimeoutError ''slow'') ())) \<lparr>maxRetries = 3, initialDelay = 100\<rparr> 7 0) = Inr ()
   \<and> fst (snd (RetryDecorator_getCustomerDashboard (scripted (fails_then_returns 2 (TimeoutError ''slow'') ())) \<lparr>maxRetries = 3, initialDelay = 100\<rparr> 7 0)) = 3
   \<and> fst (RetryDecorator_getCustomerDashboard (scripted (fails_then_returns 10 (TimeoutError ''slow'') ())) \<lparr>maxRetries = 3, initialDelay = 100\<rparr> 7 0)
       = Inl (QueryError ''Failed after 4 attempts'' (Some (TimeoutError ''slow'')))
   \<and> fst (snd (RetryDecorator_getCustomerDashboard (scripted (fails_then_returns 10 (TimeoutError ''slow'') ())) \<lparr>maxRetries = 3, initialDelay = 100\<rparr> 7 0)) = 4
   \<and> RetryDecorator_getCustomerDashboard (scripted (fails_then_returns 1 (ValidationError ''bad id'') ())) \<lparr>maxRetries = 3, initialDelay = 100\<rparr> 7 0
       = (Inl (ValidationError ''bad id''), 1, [])"
  using retry_decorator_attempts
      [where this = "\<lparr>maxRetries = 3, initialDelay = 100\<rparr>" and script = "fails_then_returns 2 (TimeoutError ''slow'') ()"
         and k = 2 and n = 0 and result = "()" and cid = 7
         and final = "TimeoutError ''slow''" and e = "TimeoutError ''slow''"]
    retry_decorator_attempts
      [where this = "\<lparr>maxRetries = 3, initialDelay = 100\<rparr>" and script = "fails_then_returns 10 (TimeoutError ''slow'') ()"
         and k = 0 and n = 0 and result = "()" and cid = 7
         and final = "TimeoutError ''slow''" and e = "TimeoutError ''slow''"]
    retry_decorator_attempts
      [where this = "\<lparr>maxRetries = 3, initialDelay = 100\<rparr>" and script = "fails_then_returns 1 (ValidationError ''bad id'') ()"
         and k = 0 and n = 0 and result = "()" and cid = 7
         and final = "TimeoutError ''slow''" and e = "ValidationError ''bad id''"]
  by (simp add: fails_then_returns_def TimeoutError_def ValidationError_def show_int_def
        show_nat.simps)

end
